theory Spec2Isabelle
  imports Complex_Main "HOL-Library.Log_Nat"
begin

section \<open>JavaScript numbers\<close>

text \<open>
  A JavaScript number is an IEEE 754 binary64 value. \<open>Fin q\<close> is the finite value \<open>q\<close>
  (\<open>Fin 0\<close> is the positive zero), \<open>NZero\<close> the negative zero. The composition reaches
  the program through \<open>JSON.parse\<close>, which yields finite values, both zeros and (for a
  literal such as \<open>1e999\<close>) the infinities, never \<open>NaN\<close>; \<open>NaN\<close> arises inside the
  program only. Every arithmetic operation computes the exact rational result and rounds
  it to the nearest binary64 value, ties to even (\<open>round_double\<close>). The type admits
  every rational as a finite value; the binary64 values are among them, so what is proved
  for every \<open>Fin q\<close> holds for every finite JavaScript number.
\<close>

datatype jsnum = Fin rat | NZero | PInf | NInf | NaN

definition pow2 :: "int \<Rightarrow> rat" where
  "pow2 k = (if 0 \<le> k then 2 ^ nat k else 1 / 2 ^ nat (- k))"

text \<open>The binary exponent \<open>\<lfloor>log\<^sub>2 a\<rfloor>\<close> of a positive rational.\<close>

definition exponent :: "rat \<Rightarrow> int" where
  "exponent a = (if 1 \<le> a then bitlen \<lfloor>a\<rfloor> - 1 else - bitlen (\<lceil>1 / a\<rceil> - 1))"

definition round_half_even :: "rat \<Rightarrow> int" where
  "round_half_even x =
     (let n = \<lfloor>x\<rfloor>; f = x - of_int n
      in if f < 1 / 2 then n else if 1 / 2 < f then n + 1 else if even n then n else n + 1)"

definition signed_zero :: "bool \<Rightarrow> jsnum" where
  "signed_zero neg = (if neg then NZero else Fin 0)"

definition signed_inf :: "bool \<Rightarrow> jsnum" where
  "signed_inf neg = (if neg then NInf else PInf)"

text \<open>
  Rounding to binary64: 53 significant bits, the least exponent \<open>-1022\<close> (below it the
  spacing stays \<open>2\<^sup>-\<^sup>1\<^sup>0\<^sup>7\<^sup>4\<close>: subnormal values), overflow to an infinity from
  \<open>2\<^sup>1\<^sup>0\<^sup>2\<^sup>4 - 2\<^sup>9\<^sup>7\<^sup>0\<close> on, underflow to the zero of the value's sign.
\<close>

definition round_double :: "rat \<Rightarrow> jsnum" where
  "round_double q =
     (let a = \<bar>q\<bar>; neg = (q < 0)
      in if a = 0 then Fin 0
         else let u = pow2 (max (exponent a) (- 1022) - 52);
                  r = of_int (round_half_even (a / u)) * u
              in if 2 ^ 1024 \<le> r then signed_inf neg
                 else if r = 0 then signed_zero neg
                 else Fin (if neg then - r else r))"

fun is_inf :: "jsnum \<Rightarrow> bool" where
  "is_inf PInf = True"
| "is_inf NInf = True"
| "is_inf _ = False"

fun is_zero :: "jsnum \<Rightarrow> bool" where
  "is_zero (Fin q) = (q = 0)"
| "is_zero NZero = True"
| "is_zero _ = False"

text \<open>The sign bit and the value of a number that is not \<open>NaN\<close>.\<close>

fun negative :: "jsnum \<Rightarrow> bool" where
  "negative (Fin q) = (q < 0)"
| "negative NZero = True"
| "negative NInf = True"
| "negative _ = False"

fun val :: "jsnum \<Rightarrow> rat" where
  "val (Fin q) = q"
| "val _ = 0"

fun fneg :: "jsnum \<Rightarrow> jsnum" where
  "fneg (Fin q) = (if q = 0 then NZero else Fin (- q))"
| "fneg NZero = Fin 0"
| "fneg PInf = NInf"
| "fneg NInf = PInf"
| "fneg NaN = NaN"

text \<open>\<open>x + y\<close>, \<open>x - y\<close>, \<open>x * y\<close>, \<open>x / y\<close> and \<open>x % y\<close> (ECMAScript \<open>Number::add\<close>,
  \<open>subtract\<close>, \<open>multiply\<close>, \<open>divide\<close>, \<open>remainder\<close>).\<close>

definition fadd :: "jsnum \<Rightarrow> jsnum \<Rightarrow> jsnum" where
  "fadd x y =
     (if x = NaN \<or> y = NaN then NaN
      else if is_inf x \<and> is_inf y then (if x = y then x else NaN)
      else if is_inf x then x
      else if is_inf y then y
      else if x = NZero \<and> y = NZero then NZero
      else round_double (val x + val y))"

definition fsub :: "jsnum \<Rightarrow> jsnum \<Rightarrow> jsnum" where
  "fsub x y = fadd x (fneg y)"

definition fmul :: "jsnum \<Rightarrow> jsnum \<Rightarrow> jsnum" where
  "fmul x y =
     (if x = NaN \<or> y = NaN then NaN
      else if (is_inf x \<and> is_zero y) \<or> (is_zero x \<and> is_inf y) then NaN
      else if is_inf x \<or> is_inf y then signed_inf (negative x \<noteq> negative y)
      else if is_zero x \<or> is_zero y then signed_zero (negative x \<noteq> negative y)
      else round_double (val x * val y))"

definition fdiv :: "jsnum \<Rightarrow> jsnum \<Rightarrow> jsnum" where
  "fdiv x y =
     (if x = NaN \<or> y = NaN then NaN
      else if (is_inf x \<and> is_inf y) \<or> (is_zero x \<and> is_zero y) then NaN
      else if is_inf x \<or> is_zero y then signed_inf (negative x \<noteq> negative y)
      else if is_inf y \<or> is_zero x then signed_zero (negative x \<noteq> negative y)
      else round_double (val x / val y))"

definition toward_zero :: "rat \<Rightarrow> int" where
  "toward_zero q = (if 0 \<le> q then \<lfloor>q\<rfloor> else \<lceil>q\<rceil>)"

definition frem :: "jsnum \<Rightarrow> jsnum \<Rightarrow> jsnum" where
  "frem n d =
     (if n = NaN \<or> d = NaN then NaN
      else if is_inf n then NaN
      else if is_inf d then n
      else if is_zero d then NaN
      else if is_zero n then n
      else let r = val n - val d * of_int (toward_zero (val n / val d))
           in if r = 0 then signed_zero (negative n) else round_double r)"

text \<open>\<open>Math.round\<close>: the nearest integer, a tie going towards \<open>+\<infinity>\<close>; the result for
  \<open>-0.5 \<le> x < 0\<close> is the negative zero. \<open>Math.floor\<close>.\<close>

fun Math_round :: "jsnum \<Rightarrow> jsnum" where
  "Math_round (Fin q) =
     (let n = \<lfloor>q + 1 / 2\<rfloor>
      in if n = 0 then signed_zero (q < 0) else Fin (of_int n))"
| "Math_round x = x"

fun Math_floor :: "jsnum \<Rightarrow> jsnum" where
  "Math_floor (Fin q) = Fin (of_int \<lfloor>q\<rfloor>)"
| "Math_floor x = x"

text \<open>
  The text a number has inside a template literal (\<open>Number::toString\<close>): \<open>Decimal q\<close>
  stands for the decimal text of the finite value \<open>q\<close>. Both zeros print as \<open>0\<close>;
  distinct finite values print differently.
\<close>

datatype numtext = Decimal rat | TextInfinity | TextNegInfinity | TextNaN

fun ToString :: "jsnum \<Rightarrow> numtext" where
  "ToString (Fin q) = Decimal q"
| "ToString NZero = Decimal 0"
| "ToString PInf = TextInfinity"
| "ToString NInf = TextNegInfinity"
| "ToString NaN = TextNaN"

text \<open>An optional field is \<open>None\<close> when the property is absent (\<open>undefined\<close>).
  \<open>ToBoolean\<close> of a number; \<open>ToNumber\<close> of a number that may be \<open>undefined\<close>.\<close>

fun truthy :: "jsnum \<Rightarrow> bool" where
  "truthy (Fin q) = (q \<noteq> 0)"
| "truthy NZero = False"
| "truthy NaN = False"
| "truthy _ = True"

fun ToNumber :: "jsnum option \<Rightarrow> jsnum" where
  "ToNumber None = NaN"
| "ToNumber (Some x) = x"

section \<open>The composition (interfaces MidiNote, MidiTrack, TimeSignature, MidiComposition)\<close>

text \<open>
  The fields carry the types the interfaces declare. Two fields are wider than declared,
  as the code itself treats them: \<open>duration\<close> may arrive as a number (the handler tests
  \<open>typeof note.duration === 'number'\<close>), and \<open>bpm\<close> may be absent (the code reads
  \<open>composition.bpm || composition.tempo || 120\<close>).
\<close>

datatype pitch_value = PitchNumber jsnum | PitchName string

datatype duration_value = DurationString string | DurationNumber jsnum

record MidiNote =
  pitch :: pitch_value
  beat :: "jsnum option"
  startTime :: "jsnum option"
  time :: "jsnum option"
  duration :: duration_value
  velocity :: "jsnum option"
  channel :: "jsnum option"

record MidiTrack =
  name :: "string option"
  instrument :: "jsnum option"
  "notes" :: "MidiNote list"

record TimeSignature =
  numerator :: jsnum
  denominator :: jsnum

record MidiComposition =
  bpm :: "jsnum option"
  tempo :: "jsnum option"
  timeSignature :: "TimeSignature option"
  tracks :: "MidiTrack list"

section \<open>The request handler's normalisation passes\<close>

text \<open>\<open>// Convert numeric durations to strings\<close>: the body of the first loop over the
  notes. The \<open>switch\<close> compares with \<open>===\<close>.\<close>

definition convertNumericDuration :: "duration_value \<Rightarrow> duration_value" where
  "convertNumericDuration d =
     (case d of
        DurationString s \<Rightarrow> DurationString s
      | DurationNumber x \<Rightarrow>
          (if x = Fin (1 / 16) then DurationString ''64''
           else if x = Fin (1 / 8) then DurationString ''32''
           else if x = Fin (1 / 4) then DurationString ''16''
           else if x = Fin (1 / 2) then DurationString ''8''
           else if x = Fin 1 then DurationString ''4''
           else if x = Fin 2 then DurationString ''2''
           else DurationString ''4''))"

text \<open>\<open>// Convert the time property to startTime\<close>: the body of the second loop.\<close>

definition convertTimeToStartTime :: "MidiNote \<Rightarrow> MidiNote" where
  "convertTimeToStartTime note =
     (if time note \<noteq> None \<and> startTime note = None
      then note\<lparr>startTime := time note, time := None\<rparr>
      else note)"

text \<open>The two passes, each over every note of every track, one after the other.\<close>

definition convertDurations :: "MidiComposition \<Rightarrow> MidiComposition" where
  "convertDurations c =
     c\<lparr>tracks :=
         map (\<lambda>track. track\<lparr>notes :=
                 map (\<lambda>note. note\<lparr>duration := convertNumericDuration (duration note)\<rparr>)
                   (notes track)\<rparr>)
           (tracks c)\<rparr>"

definition convertTimes :: "MidiComposition \<Rightarrow> MidiComposition" where
  "convertTimes c =
     c\<lparr>tracks := map (\<lambda>track. track\<lparr>notes := map convertTimeToStartTime (notes track)\<rparr>)
                   (tracks c)\<rparr>"

definition normalizeComposition :: "MidiComposition \<Rightarrow> MidiComposition" where
  "normalizeComposition c = convertTimes (convertDurations c)"

section \<open>createMidiFile\<close>

definition noteToMidiNumber :: "pitch_value \<Rightarrow> pitch_value" where
  "noteToMidiNumber note =
     (case note of PitchNumber n \<Rightarrow> PitchNumber n | PitchName s \<Rightarrow> PitchName s)"

text \<open>The wait string \<open>`T${ticks}`\<close>: the letter T followed by the text of the number.\<close>

datatype wait_text = T numtext

definition PPQ :: jsnum where
  "PPQ = Fin 128"

definition convertBeatToWait :: "jsnum \<Rightarrow> jsnum \<Rightarrow> wait_text" where
  "convertBeatToWait beat' bpm' =
     (let adjustedBeat = fsub beat' (Fin 1);
          ticks = Math_round (fdiv (fmul adjustedBeat PPQ) bpm')
      in T (ToString ticks))"

text \<open>\<open>a || b\<close> on numbers that may be \<open>undefined\<close>; \<open>a || d\<close> where \<open>d\<close> is a number.\<close>

definition or_undefined :: "jsnum option \<Rightarrow> jsnum option \<Rightarrow> jsnum option" where
  "or_undefined a b = (case a of Some x \<Rightarrow> if truthy x then a else b | None \<Rightarrow> b)"

definition or_number :: "jsnum option \<Rightarrow> jsnum \<Rightarrow> jsnum" where
  "or_number a d = (case a of Some x \<Rightarrow> if truthy x then x else d | None \<Rightarrow> d)"

text \<open>
  A track of the MIDI writer is modelled by the calls made on it, in order:
  \<open>addTrackName\<close>, \<open>setTempo\<close>, \<open>setTimeSignature\<close>, and \<open>addEvent\<close> of a
  \<open>ProgramChangeEvent {instrument, channel}\<close> or of a
  \<open>NoteEvent {pitch, duration, velocity, channel, wait}\<close>.
\<close>

datatype event =
    TrackName string
  | SetTempo jsnum
  | SetTimeSignature jsnum jsnum
  | ProgramChangeEvent jsnum jsnum
  | NoteEvent (pitchOf: "pitch_value list") (durationOf: duration_value)
      (velocityOf: jsnum) (channelOf: jsnum) (waitOf: wait_text)

text \<open>The body of \<open>trackData.notes.forEach\<close> (\<open>// Add notes\<close>).\<close>

definition addNote :: "MidiComposition \<Rightarrow> nat \<Rightarrow> MidiNote \<Rightarrow> event" where
  "addNote c trackIndex note =
     (let pitch' = noteToMidiNumber (pitch note);
          velocity' = (case velocity note of Some v \<Rightarrow> v | None \<Rightarrow> Fin 100);
          channel' = (case channel note of
                        Some ch \<Rightarrow> frem ch (Fin 16)
                      | None \<Rightarrow> frem (Fin (of_nat trackIndex)) (Fin 16));
          wait = (case beat note of
                    Some b \<Rightarrow> convertBeatToWait b (ToNumber (bpm c))
                  | None \<Rightarrow>
                      (let startTime' = or_number (startTime note) (Fin 0)
                       in T (ToString (Math_round (fmul startTime' (Fin (1 / 2)))))))
      in NoteEvent [pitch'] (duration note) velocity' channel' wait)"

text \<open>The body of \<open>composition.tracks.forEach\<close> (\<open>// Process each track\<close>).\<close>

definition buildTrack :: "MidiComposition \<Rightarrow> MidiTrack \<Rightarrow> nat \<Rightarrow> event list" where
  "buildTrack c trackData trackIndex =
     (case name trackData of
        Some n \<Rightarrow> if n \<noteq> [] then [TrackName n] else []
      | None \<Rightarrow> [])
     @ [SetTempo (or_number (or_undefined (bpm c) (tempo c)) (Fin 120))]
     @ (let ts = (case timeSignature c of
                    Some ts \<Rightarrow> ts
                  | None \<Rightarrow> \<lparr>numerator = Fin 4, denominator = Fin 4\<rparr>)
        in [SetTimeSignature (numerator ts) (denominator ts)])
     @ (case instrument trackData of
          Some i \<Rightarrow> [ProgramChangeEvent i (frem (Fin (of_nat trackIndex)) (Fin 16))]
        | None \<Rightarrow> [])
     @ map (addNote c trackIndex) (notes trackData)"

definition buildTracks :: "MidiComposition \<Rightarrow> event list list" where
  "buildTracks c = map (\<lambda>(trackIndex, trackData). buildTrack c trackData trackIndex)
                     (enumerate 0 (tracks c))"

subsection \<open>processMidiComposition\<close>

text \<open>\<open>array.slice(i, j)\<close> for \<open>0 \<le> i \<le> j\<close>.\<close>

definition slice :: "'a list \<Rightarrow> nat \<Rightarrow> nat \<Rightarrow> 'a list" where
  "slice array i j = take (j - i) (drop i array)"

text \<open>The loop of \<open>chunkArray\<close>; with \<open>size = 0\<close> on a non-empty array it never ends,
  which is the value \<open>None\<close>.\<close>

partial_function (option) chunkArray_loop ::
  "'a list \<Rightarrow> nat \<Rightarrow> nat \<Rightarrow> 'a list list \<Rightarrow> 'a list list option" where
  "chunkArray_loop array sz i chunks =
     (if i < length array
      then chunkArray_loop array sz (i + sz) (chunks @ [slice array i (i + sz)])
      else Some chunks)"

definition chunkArray :: "'a list \<Rightarrow> nat \<Rightarrow> 'a list list option" where
  "chunkArray array sz = chunkArray_loop array sz 0 []"

definition batchSize :: nat where
  "batchSize = 50"

text \<open>\<open>processNoteChunk\<close> and \<open>processTrack\<close> return a promise that resolves at once.\<close>

definition processNoteChunk :: "MidiNote list \<Rightarrow> unit" where
  "processNoteChunk chunk = ()"

definition processTrack :: "MidiTrack \<Rightarrow> unit" where
  "processTrack track = ()"

datatype progress_message = Started | ProcessingTrack nat nat | Completed

datatype notification = Progress jsnum progress_message

text \<open>The loop of \<open>processMidiComposition\<close> over the tracks, from \<open>processedTracks\<close>
  tracks already done; it yields the notifications sent.\<close>

fun processTracks :: "nat \<Rightarrow> nat \<Rightarrow> MidiTrack list \<Rightarrow> notification list option" where
  "processTracks totalTracks processedTracks [] = Some []"
| "processTracks totalTracks processedTracks (track # rest) =
     (case (if batchSize < length (notes track)
            then map_option (map processNoteChunk) (chunkArray (notes track) batchSize)
            else Some [processTrack track]) of
        None \<Rightarrow> None
      | Some resolved \<Rightarrow>
          (let processedTracks' = Suc processedTracks;
               progress = Math_floor (fmul (fdiv (Fin (of_nat processedTracks'))
                                               (Fin (of_nat totalTracks))) (Fin 100))
           in map_option (\<lambda>sent. Progress progress (ProcessingTrack processedTracks' totalTracks) # sent)
                (processTracks totalTracks processedTracks' rest)))"

definition processMidiComposition :: "MidiComposition \<Rightarrow> notification list option" where
  "processMidiComposition c = processTracks (length (tracks c)) 0 (tracks c)"

subsection \<open>Errors, the host and the disk\<close>

datatype ErrorCode = MethodNotFound | InvalidParams | InternalError

text \<open>What is thrown: an \<open>McpError\<close> with its code and message (a message quotes the
  message of the error it wraps), an error of the runtime (\<open>SyntaxError\<close>, \<open>TypeError\<close>, a
  \<open>SystemError\<close> of the file system) or an error of the MIDI writer library.\<close>

datatype thrown =
    McpError ErrorCode message
  | SyntaxError
  | TypeError
  | SystemError
  | WriterError
and message =
    UnknownTool string
  | CompositionRequired
  | JsonFileLoadFailed thrown
  | InvalidCompositionFormat thrown
  | MidiGenerationFailed thrown

text \<open>What \<open>JSON.parse\<close> does on a text: it throws, or returns a value of the shape of
  \<open>MidiComposition\<close>, or returns another value, on which the loops over
  \<open>composition.tracks\<close> throw a \<open>TypeError\<close>.\<close>

datatype parsed = ParseThrows | OtherValue | CompositionValue MidiComposition

text \<open>What a call into the MIDI writer library does: it returns, it throws, or it never
  returns.\<close>

datatype outcome = Returns | Throws | NeverReturns

text \<open>
  The host: the file system's reads, \<open>JSON.parse\<close>, the \<open>path\<close> module,
  \<open>process.env.HOME || process.env.USERPROFILE || os.tmpdir()\<close>, which calls of
  \<open>mkdirSync\<close> and \<open>writeFileSync\<close> throw, and the MIDI writer library. The library
  validates and encodes the fields of the events it is given (the wait string among
  them), so its calls may throw or not return. \<open>writerCalls\<close> is the outcome of the
  calls made while the tracks are built (\<open>new Track\<close>, \<open>addTrackName\<close>, \<open>setTempo\<close>,
  \<open>setTimeSignature\<close>, \<open>new ProgramChangeEvent\<close>, \<open>new NoteEvent\<close>, \<open>addEvent\<close>,
  \<open>new Writer\<close>), taken together for the tracks to build: all return, or the first that
  does not return throws or never returns. \<open>buildFile\<close> is the outcome of
  \<open>writer.buildFile()\<close>.
\<close>

record host =
  readFileSync :: "string \<Rightarrow> string option"
  JSON_parse :: "string \<Rightarrow> parsed"
  isAbsolute :: "string \<Rightarrow> bool"
  basename :: "string \<Rightarrow> string"
  join :: "string \<Rightarrow> string \<Rightarrow> string"
  safeBaseDir :: string
  mkdirSyncThrows :: "string \<Rightarrow> bool"
  writerCalls :: "event list list \<Rightarrow> outcome"
  buildFile :: "event list list \<Rightarrow> outcome"
  writeFileSyncThrows :: "string \<Rightarrow> bool"

text \<open>The disk: the paths that exist, and the MIDI files written, each as the tracks the
  writer serialised.\<close>

record disk =
  existing :: "string set"
  written :: "string \<rightharpoonup> event list list"

text \<open>\<open>fs.writeFileSync(outputFilePath, Buffer.from(writer.buildFile(), 'base64'),
  'binary')\<close>: the file is built first, then written.\<close>

definition writeMidiFile ::
  "host \<Rightarrow> disk \<Rightarrow> string \<Rightarrow> event list list \<Rightarrow> ((thrown + string) \<times> disk) option" where
  "writeMidiFile h d outputFilePath built =
     (case buildFile h built of
        NeverReturns \<Rightarrow> None
      | Throws \<Rightarrow> Some (Inl (McpError InternalError (MidiGenerationFailed WriterError)), d)
      | Returns \<Rightarrow>
          if writeFileSyncThrows h outputFilePath
          then Some (Inl (McpError InternalError (MidiGenerationFailed SystemError)), d)
          else Some (Inr outputFilePath,
                     d\<lparr>existing := insert outputFilePath (existing d),
                       written := (written d)(outputFilePath \<mapsto> built)\<rparr>))"

text \<open>\<open>createMidiFile\<close>: the notifications of \<open>processMidiComposition\<close>, the tracks built
  through the library, the output path, the directory made when the path is relative,
  the file written. Whatever is thrown is caught and thrown again as an \<open>InternalError\<close>;
  a loop or a library call that never returns is the value \<open>None\<close>.\<close>

definition createMidiFile ::
  "host \<Rightarrow> disk \<Rightarrow> string \<Rightarrow> MidiComposition \<Rightarrow> string
    \<Rightarrow> ((thrown + string) \<times> disk \<times> notification list) option" where
  "createMidiFile h d title' c outputPath =
     (case processMidiComposition c of
        None \<Rightarrow> None
      | Some sent \<Rightarrow>
          (let built = buildTracks c
           in case writerCalls h built of
                NeverReturns \<Rightarrow> None
              | Throws \<Rightarrow>
                  Some (Inl (McpError InternalError (MidiGenerationFailed WriterError)), d, sent)
              | Returns \<Rightarrow>
                  if isAbsolute h outputPath
                  then map_option (\<lambda>(r, d'). (r, d', sent)) (writeMidiFile h d outputPath built)
                  else
                    (let midiDir = join h (safeBaseDir h) ''midi-files''
                     in if midiDir \<notin> existing d \<and> mkdirSyncThrows h midiDir
                        then Some (Inl (McpError InternalError (MidiGenerationFailed SystemError)),
                                   d, sent)
                        else
                          (let d1 = (if midiDir \<notin> existing d
                                     then d\<lparr>existing := insert midiDir (existing d)\<rparr> else d);
                               fileName = basename h outputPath
                           in map_option (\<lambda>(r, d'). (r, d', sent))
                                (writeMidiFile h d1 (join h midiDir fileName) built)))))"

section \<open>The handler of a tool call\<close>

datatype inline_composition = CompositionObject MidiComposition | CompositionString string

record CreateMidiArgs =
  title :: string
  composition :: "inline_composition option"
  composition_file :: "string option"
  output_path :: string

record request =
  toolName :: string
  arguments :: CreateMidiArgs

text \<open>The response: the text naming the title and the path of the file, or the text of
  the error caught, flagged \<open>isError\<close>.\<close>

datatype response = Generated string string | ErrorResponse thrown

text \<open>\<open>ToBoolean\<close> of \<open>args.composition\<close> (an object, or a string that is not empty) and of
  \<open>args.composition_file\<close>.\<close>

fun truthy_composition :: "inline_composition option \<Rightarrow> bool" where
  "truthy_composition None = False"
| "truthy_composition (Some (CompositionObject c)) = True"
| "truthy_composition (Some (CompositionString s)) = (s \<noteq> [])"

fun truthy_string :: "string option \<Rightarrow> bool" where
  "truthy_string None = False"
| "truthy_string (Some s) = (s \<noteq> [])"

text \<open>The choice of the source of the composition (lines 190 to 204): what is thrown
  inside the inner \<open>try\<close>, or the composition. With no source at all the composition is
  \<open>undefined\<close> and the loops throw a \<open>TypeError\<close>.\<close>

definition loadComposition :: "host \<Rightarrow> CreateMidiArgs \<Rightarrow> thrown + MidiComposition" where
  "loadComposition h args =
     (case (if truthy_string (composition_file args) then composition_file args else None) of
        Some file \<Rightarrow>
          (case readFileSync h file of
             None \<Rightarrow> Inl (McpError InvalidParams (JsonFileLoadFailed SystemError))
           | Some fileContent \<Rightarrow>
               (case JSON_parse h fileContent of
                  ParseThrows \<Rightarrow> Inl (McpError InvalidParams (JsonFileLoadFailed SyntaxError))
                | OtherValue \<Rightarrow> Inl TypeError
                | CompositionValue c \<Rightarrow> Inr c))
      | None \<Rightarrow>
          (case composition args of
             Some (CompositionString s) \<Rightarrow>
               (case JSON_parse h s of
                  ParseThrows \<Rightarrow> Inl SyntaxError
                | OtherValue \<Rightarrow> Inl TypeError
                | CompositionValue c \<Rightarrow> Inr c)
           | Some (CompositionObject c) \<Rightarrow> Inr c
           | None \<Rightarrow> Inl TypeError))"

definition handler ::
  "host \<Rightarrow> disk \<Rightarrow> request \<Rightarrow> (response \<times> disk \<times> notification list) option" where
  "handler h d req =
     (if toolName req \<noteq> ''create_midi''
      then Some (ErrorResponse (McpError MethodNotFound (UnknownTool (toolName req))), d, [])
      else
        (let args = arguments req; started = Progress (Fin 0) Started
         in if \<not> truthy_composition (composition args) \<and> \<not> truthy_string (composition_file args)
            then Some (ErrorResponse (McpError InvalidParams CompositionRequired), d, [started])
            else
              (case loadComposition h args of
                 Inl e \<Rightarrow>
                   Some (ErrorResponse (McpError InvalidParams (InvalidCompositionFormat e)),
                         d, [started])
               | Inr c \<Rightarrow>
                   (case createMidiFile h d (title args) (normalizeComposition c)
                           (output_path args) of
                      None \<Rightarrow> None
                    | Some (Inl e, d', sent) \<Rightarrow> Some (ErrorResponse e, d', started # sent)
                    | Some (Inr midiFilePath, d', sent) \<Rightarrow>
                        Some (Generated (title args) midiFilePath, d',
                              started # sent @ [Progress (Fin 100) Completed])))))"

section \<open>Notions used in the statements\<close>

text \<open>What the two passes of the handler make of one note. The note event the handler
  emits for a note of track \<open>trackIndex\<close> of the composition it loaded: the two passes,
  then the body of the loop over the notes in \<open>createMidiFile\<close>.\<close>

definition normalizeNote :: "MidiNote \<Rightarrow> MidiNote" where
  "normalizeNote note =
     convertTimeToStartTime (note\<lparr>duration := convertNumericDuration (duration note)\<rparr>)"

definition resolveNote :: "MidiComposition \<Rightarrow> nat \<Rightarrow> MidiNote \<Rightarrow> event" where
  "resolveNote c trackIndex note = addNote (normalizeComposition c) trackIndex (normalizeNote note)"

fun isNoteEvent :: "event \<Rightarrow> bool" where
  "isNoteEvent (NoteEvent p d v ch w) = True"
| "isNoteEvent _ = False"

fun isSetTempo :: "event \<Rightarrow> bool" where
  "isSetTempo (SetTempo x) = True"
| "isSetTempo _ = False"

text \<open>The tempo as the specification words it: \<open>bpm\<close> when present and non-zero,
  otherwise the legacy \<open>tempo\<close> when present and non-zero, otherwise 120.\<close>

definition specTempo :: "MidiComposition \<Rightarrow> jsnum" where
  "specTempo c =
     (case bpm c of
        Some b \<Rightarrow> if \<not> is_zero b then b
                  else (case tempo c of
                          Some t \<Rightarrow> if \<not> is_zero t then t else Fin 120
                        | None \<Rightarrow> Fin 120)
      | None \<Rightarrow> (case tempo c of
                   Some t \<Rightarrow> if \<not> is_zero t then t else Fin 120
                 | None \<Rightarrow> Fin 120))"

text \<open>The composition of the README:
  \<open>{"bpm": 120, "timeSignature": {"numerator": 4, "denominator": 4}, "tracks": [{"name":
  "Piano", "instrument": 0, "notes": [{"pitch": 60, "startTime": 0, "duration": "4",
  "velocity": 100}]}]}\<close>.\<close>

definition readmeNote :: MidiNote where
  "readmeNote =
     \<lparr>pitch = PitchNumber (Fin 60), beat = None, startTime = Some (Fin 0), time = None,
      duration = DurationString ''4'', velocity = Some (Fin 100), channel = None\<rparr>"

definition readmeComposition :: MidiComposition where
  "readmeComposition =
     \<lparr>bpm = Some (Fin 120), tempo = None,
      timeSignature = Some \<lparr>numerator = Fin 4, denominator = Fin 4\<rparr>,
      tracks = [\<lparr>name = Some ''Piano'', instrument = Some (Fin 0), notes = [readmeNote]\<rparr>]\<rparr>"

text \<open>A composition with a track of 51 notes, of pitches 0 to 50, before the track of the
  README.\<close>

definition longComposition :: MidiComposition where
  "longComposition =
     readmeComposition\<lparr>tracks :=
       [\<lparr>name = None, instrument = None,
         notes = map (\<lambda>k. readmeNote\<lparr>pitch := PitchNumber (Fin (of_nat k))\<rparr>) [0..<51]\<rparr>,
        \<lparr>name = Some ''Piano'', instrument = Some (Fin 0), notes = [readmeNote]\<rparr>]\<rparr>"

text \<open>A host on which the file \<open>/music/song.json\<close> holds the text of the README's
  composition, no other file can be read, and no call throws or hangs; an empty disk; a
  request that names no source.\<close>

definition exampleHost :: host where
  "exampleHost =
     \<lparr>readFileSync = (\<lambda>p. if p = ''/music/song.json'' then Some ''song'' else None),
      JSON_parse = (\<lambda>text. if text = ''song'' then CompositionValue readmeComposition
                             else ParseThrows),
      isAbsolute = (\<lambda>p. take 1 p = ''/''),
      basename = (\<lambda>p. rev (takeWhile (\<lambda>ch. ch \<noteq> CHR ''/'') (rev p))),
      join = (\<lambda>a b. a @ ''/'' @ b),
      safeBaseDir = ''/home/user'',
      mkdirSyncThrows = (\<lambda>p. False),
      writerCalls = (\<lambda>built. Returns),
      buildFile = (\<lambda>built. Returns),
      writeFileSyncThrows = (\<lambda>p. False)\<rparr>"

definition emptyDisk :: disk where
  "emptyDisk = \<lparr>existing = {}, written = Map.empty\<rparr>"

definition exampleArgs :: CreateMidiArgs where
  "exampleArgs =
     \<lparr>title = ''Test'', composition = None, composition_file = None,
      output_path = ''/music/test.mid''\<rparr>"

definition exampleRequest :: request where
  "exampleRequest = \<lparr>toolName = ''create_midi'', arguments = exampleArgs\<rparr>"

text \<open>A wait of a whole, non-negative number of ticks.\<close>

fun nonNegativeTicks :: "wait_text \<Rightarrow> bool" where
  "nonNegativeTicks (T (Decimal q)) = (0 \<le> q \<and> of_int \<lfloor>q\<rfloor> = q)"
| "nonNegativeTicks _ = False"

text \<open>A number that is not negative: a finite value from \<open>+0\<close> on, or \<open>+\<infinity>\<close>.\<close>

fun nonneg :: "jsnum \<Rightarrow> bool" where
  "nonneg (Fin q) = (0 \<le> q)"
| "nonneg PInf = True"
| "nonneg _ = False"

section \<open>Facts about binary64 rounding\<close>

lemma floor_rat_numeral: "\<lfloor>numeral a / numeral b :: rat\<rfloor> = numeral a div numeral b"
  using floor_divide_of_int_eq[of "numeral a" "numeral b", where ?'a = rat] by simp

lemma bitlen_1: "bitlen 1 = 1"
  using bitlen_twopow_add_eq[of 0 0] by simp

lemma round_half_even_of_int: "round_half_even (of_int k) = k"
  by (simp add: round_half_even_def)

lemma round_half_even_nonneg: "0 \<le> x \<Longrightarrow> 0 \<le> round_half_even x"
  by (auto simp: round_half_even_def Let_def)

lemma pow2_pos: "0 < pow2 k"
  by (simp add: pow2_def)

lemma round_double_0: "round_double 0 = Fin 0"
  by (simp add: round_double_def)

text \<open>An integer below \<open>2\<^sup>5\<^sup>3\<close> in absolute value is a binary64 value.\<close>

lemma round_double_abs_int:
  assumes "0 < n" "n < 2 ^ 53" "\<bar>q\<bar> = of_int n"
  shows "round_double q = Fin q"
proof -
  define e where "e = bitlen n - 1"
  have e0: "0 \<le> e"
    using assms(1) bitlen_ge_iff_power[of 1 n] by (simp add: e_def)
  have e52: "e \<le> 52"
    using assms(2) bitlen_le_iff_power[of n 53] by (simp add: e_def)
  have ex: "exponent (of_int n) = e"
    using assms(1) by (simp add: exponent_def e_def)
  define k where "k = nat (52 - e)"
  have u: "pow2 (max e (- 1022) - 52) = 1 / 2 ^ k"
    using e0 e52 by (auto simp: pow2_def k_def max_def)
  have au: "(of_int n :: rat) / (1 / 2 ^ k) = of_int (n * 2 ^ k)"
    by simp
  have r: "of_int (round_half_even ((of_int n :: rat) / (1 / 2 ^ k))) * (1 / 2 ^ k)
             = (of_int n :: rat)"
    unfolding au round_half_even_of_int by simp
  have lt: "(of_int n :: rat) < 2 ^ 1024"
  proof -
    have "n < 2 ^ 1024"
      using assms(2) by (rule less_trans) simp
    then have "(of_int n :: rat) < of_int (2 ^ 1024)"
      by (simp only: of_int_less_iff)
    then show ?thesis by simp
  qed
  have nz: "(of_int n :: rat) \<noteq> 0"
    using assms(1) by simp
  have qn: "q < 0 \<Longrightarrow> - of_int n = q" and qp: "\<not> q < 0 \<Longrightarrow> of_int n = q"
    using assms(3) by simp_all
  show ?thesis
    using nz lt qn qp unfolding round_double_def assms(3) Let_def ex u r
    by (simp add: signed_inf_def signed_zero_def)
qed

lemma round_double_numeral: "numeral w < (2::int) ^ 53 \<Longrightarrow> round_double (numeral w) = Fin (numeral w)"
  using round_double_abs_int[of "numeral w" "numeral w"] by simp

lemma round_double_neg_numeral:
  "numeral w < (2::int) ^ 53 \<Longrightarrow> round_double (- numeral w) = Fin (- numeral w)"
  using round_double_abs_int[of "numeral w" "- numeral w"] by simp

lemma round_double_1: "round_double 1 = Fin 1"
  using round_double_abs_int[of 1 1] by simp

lemma round_double_of_nat:
  "n < 2 ^ 53 \<Longrightarrow> round_double (of_nat n) = Fin (of_nat n)"
proof (cases "n = 0")
  case True
  then show ?thesis by (simp add: round_double_0)
next
  case False
  assume "n < 2 ^ 53"
  then have "int n < 2 ^ 53"
    by (metis of_nat_less_iff of_nat_numeral of_nat_power)
  with False show ?thesis
    using round_double_abs_int[of "int n" "of_nat n"] by simp
qed

text \<open>Rounding keeps the sign.\<close>

lemma round_double_nonneg:
  assumes "0 \<le> q"
  shows "(\<exists>r. 0 \<le> r \<and> round_double q = Fin r) \<or> round_double q = PInf"
proof (cases "q = 0")
  case True
  then show ?thesis by (simp add: round_double_0)
next
  case False
  define u where "u = pow2 (max (exponent q) (- 1022) - 52)"
  define r where "r = of_int (round_half_even (q / u)) * u"
  have "0 < u" by (simp add: u_def pow2_pos)
  with assms have "0 \<le> q / u" by simp
  then have "0 \<le> round_half_even (q / u)" by (rule round_half_even_nonneg)
  with \<open>0 < u\<close> have r0: "0 \<le> r" by (simp add: r_def)
  have "round_double q = (if 2 ^ 1024 \<le> r then PInf else if r = 0 then Fin 0 else Fin r)"
    using assms False by (simp add: round_double_def Let_def u_def r_def signed_inf_def signed_zero_def)
  with r0 show ?thesis by auto
qed

section \<open>The passes of the handler, note by note\<close>

lemma beat_normalizeNote: "beat (normalizeNote note) = beat note"
  by (simp add: normalizeNote_def convertTimeToStartTime_def)

lemma startTime_normalizeNote:
  "startTime (normalizeNote note) =
     (case startTime note of Some s \<Rightarrow> Some s | None \<Rightarrow> time note)"
  by (simp add: normalizeNote_def convertTimeToStartTime_def split: option.splits)

lemma duration_normalizeNote:
  "duration (normalizeNote note) = convertNumericDuration (duration note)"
  by (simp add: normalizeNote_def convertTimeToStartTime_def)

lemma velocity_normalizeNote: "velocity (normalizeNote note) = velocity note"
  by (simp add: normalizeNote_def convertTimeToStartTime_def)

lemma channel_normalizeNote: "channel (normalizeNote note) = channel note"
  by (simp add: normalizeNote_def convertTimeToStartTime_def)

lemma pitch_normalizeNote: "pitch (normalizeNote note) = pitch note"
  by (simp add: normalizeNote_def convertTimeToStartTime_def)

lemma normalizeComposition_notes:
  "normalizeComposition c =
     c\<lparr>tracks := map (\<lambda>track. track\<lparr>notes := map normalizeNote (notes track)\<rparr>) (tracks c)\<rparr>"
  by (simp add: normalizeComposition_def convertTimes_def convertDurations_def comp_def
      normalizeNote_def)

lemma bpm_normalizeComposition: "bpm (normalizeComposition c) = bpm c"
  by (simp add: normalizeComposition_notes)

lemma waitOf_resolveNote:
  "waitOf (resolveNote c trackIndex note) =
     (case beat note of
        Some b \<Rightarrow> convertBeatToWait b (ToNumber (bpm c))
      | None \<Rightarrow>
          T (ToString (Math_round (fmul
            (or_number (case startTime note of Some s \<Rightarrow> Some s | None \<Rightarrow> time note) (Fin 0))
            (Fin (1 / 2))))))"
  by (simp add: resolveNote_def addNote_def Let_def beat_normalizeNote
      startTime_normalizeNote bpm_normalizeComposition split: option.splits)

section \<open>Duration normalisation\<close>

text \<open>
  C2. A duration that is a string is passed through unchanged, in particular each of the
  tokens "1", "2", "4", "8", "16", "32", "64"; the numbers 0.0625, 0.125, 0.25, 0.5, 1, 2
  become "64", "32", "16", "8", "4", "2"; every other number becomes "4". This is the
  duration of every note after the handler's pass.
\<close>

theorem C2_duration_normalization:
  "(s \<in> {''1'', ''2'', ''4'', ''8'', ''16'', ''32'', ''64''} \<longrightarrow>
      convertNumericDuration (DurationString s) = DurationString s)
   \<and> convertNumericDuration (DurationNumber (Fin (1 / 16))) = DurationString ''64''
   \<and> convertNumericDuration (DurationNumber (Fin (1 / 8))) = DurationString ''32''
   \<and> convertNumericDuration (DurationNumber (Fin (1 / 4))) = DurationString ''16''
   \<and> convertNumericDuration (DurationNumber (Fin (1 / 2))) = DurationString ''8''
   \<and> convertNumericDuration (DurationNumber (Fin 1)) = DurationString ''4''
   \<and> convertNumericDuration (DurationNumber (Fin 2)) = DurationString ''2''
   \<and> (x \<notin> {Fin (1 / 16), Fin (1 / 8), Fin (1 / 4), Fin (1 / 2), Fin 1, Fin 2} \<longrightarrow>
        convertNumericDuration (DurationNumber x) = DurationString ''4'')
   \<and> duration (normalizeNote note) = convertNumericDuration (duration note)"
  by (simp add: convertNumericDuration_def duration_normalizeNote)

theorem C2_duration_normalization_witness:
  "''16'' \<in> {''1'', ''2'', ''4'', ''8'', ''16'', ''32'', ''64''}
   \<and> convertNumericDuration (DurationString ''16'') = DurationString ''16''
   \<and> Fin 3 \<notin> {Fin (1 / 16), Fin (1 / 8), Fin (1 / 4), Fin (1 / 2), Fin 1, Fin 2}
   \<and> convertNumericDuration (DurationNumber (Fin 3)) = DurationString ''4''
   \<and> duration (normalizeNote (readmeNote\<lparr>duration := DurationNumber (Fin (1 / 2))\<rparr>))
       = DurationString ''8''"
  using C2_duration_normalization [of "''16''" "Fin 3"
      "readmeNote\<lparr>duration := DurationNumber (Fin (1 / 2))\<rparr>"]
  by simp

section \<open>Beat positions\<close>

lemma Math_round_0: "Math_round (Fin 0) = Fin 0"
proof -
  have "\<lfloor>1 / 2 :: rat\<rfloor> = 0"
    by (rule floor_unique) simp_all
  then show ?thesis
    by (simp add: signed_zero_def)
qed

lemma Math_round_of_int:
  "Math_round (Fin (of_int k)) = Fin (of_int k)"
proof -
  have "\<lfloor>of_int k + 1 / 2 :: rat\<rfloor> = k"
    by (rule floor_unique) simp_all
  then show ?thesis
    by (simp add: signed_zero_def)
qed

lemma convertBeatToWait_first_beat:
  assumes "\<not> is_zero t" "t \<noteq> NaN"
  shows "convertBeatToWait (Fin 1) t = T (Decimal 0)"
proof -
  have a: "fsub (Fin 1) (Fin 1) = Fin 0"
    by (simp add: fsub_def fadd_def round_double_0)
  have m: "fmul (Fin 0) PPQ = Fin 0"
    by (simp add: fmul_def PPQ_def signed_zero_def)
  have d: "fdiv (Fin 0) t = Fin 0 \<or> fdiv (Fin 0) t = NZero"
    using assms by (cases t) (simp_all add: fdiv_def signed_zero_def)
  then have "ToString (Math_round (fdiv (Fin 0) t)) = Decimal 0"
    by (auto simp: Math_round_0 simp del: Math_round.simps(1))
  then show ?thesis
    by (simp add: convertBeatToWait_def a m)
qed

lemma round_double_16_15:
  "round_double (16 / 15) = Fin (4803839602528529 / 4503599627370496)"
proof -
  have "exponent (16 / 15) = 0"
    by (simp add: exponent_def bitlen_1 floor_rat_numeral)
  then show ?thesis
    unfolding round_double_def Let_def
    by (simp add: pow2_def round_half_even_def Let_def floor_rat_numeral)
qed

lemma convertBeatToWait_2_120: "convertBeatToWait (Fin 2) (Fin 120) = T (Decimal 1)"
proof -
  have a: "fsub (Fin 2) (Fin 1) = Fin 1"
    by (simp add: fsub_def fadd_def round_double_1)
  have m: "fmul (Fin 1) PPQ = Fin 128"
    by (simp add: fmul_def PPQ_def round_double_numeral)
  have d: "fdiv (Fin 128) (Fin 120) = Fin (4803839602528529 / 4503599627370496)"
    by (simp add: fdiv_def round_double_16_15)
  have r: "Math_round (Fin (4803839602528529 / 4503599627370496)) = Fin 1"
    by (simp add: Let_def floor_rat_numeral)
  show ?thesis
    by (simp add: convertBeatToWait_def a m d r del: Math_round.simps(1))
qed

text \<open>
  For a note that carries a beat, the wait is the letter T followed by
  \<open>round(((beat - 1) * 128) / bpm)\<close>, computed in the arithmetic of JavaScript numbers
  with \<open>bpm\<close> the composition's \<open>bpm\<close> field. When that field is a number other than
  zero, beat 1 gives 0 ticks; when it is 120, beat 2 gives 1 tick.
\<close>

lemma beat_wait_of_bpm_field:
  "(beat note = Some b \<longrightarrow>
      waitOf (resolveNote c trackIndex note) =
        T (ToString (Math_round (fdiv (fmul (fsub b (Fin 1)) (Fin 128)) (ToNumber (bpm c))))))
   \<and> (beat note = Some (Fin 1) \<and> bpm c = Some t \<and> \<not> is_zero t \<and> t \<noteq> NaN \<longrightarrow>
        waitOf (resolveNote c trackIndex note) = T (Decimal 0))
   \<and> (beat note = Some (Fin 2) \<and> bpm c = Some (Fin 120) \<longrightarrow>
        waitOf (resolveNote c trackIndex note) = T (Decimal 1))"
  by (simp add: waitOf_resolveNote convertBeatToWait_first_beat convertBeatToWait_2_120)
    (simp add: convertBeatToWait_def PPQ_def)

section \<open>Start offsets\<close>

lemma Math_round_numeral: "Math_round (Fin (numeral w)) = Fin (numeral w)"
  using Math_round_of_int [of "numeral w"] by simp

lemma Math_round_neg_numeral: "Math_round (Fin (- numeral w)) = Fin (- numeral w)"
  using Math_round_of_int [of "- numeral w"] by simp

lemma offset_zero: "T (ToString (Math_round (fmul (Fin 0) (Fin (1 / 2))))) = T (Decimal 0)"
  by (simp add: fmul_def signed_zero_def Math_round_0 del: Math_round.simps(1))

lemma or_number_zero_wait:
  assumes "s \<noteq> NaN"
  shows "ToString (Math_round (fmul (or_number (Some s) (Fin 0)) (Fin (1 / 2))))
           = ToString (Math_round (fmul s (Fin (1 / 2))))"
proof (cases "truthy s")
  case True
  then show ?thesis by (simp add: or_number_def)
next
  case False
  with assms have "s = Fin 0 \<or> s = NZero"
    by (cases s) simp_all
  then show ?thesis
    by (auto simp: or_number_def fmul_def signed_zero_def Math_round_0 simp del: Math_round.simps(1))
qed

lemma half_of_10: "fmul (Fin 10) (Fin (1 / 2)) = Fin 5"
  by (simp add: fmul_def round_double_numeral)

lemma half_of_4: "fmul (Fin 4) (Fin (1 / 2)) = Fin 2"
  by (simp add: fmul_def round_double_numeral)

lemma half_of_minus_10: "fmul (Fin (- 10)) (Fin (1 / 2)) = Fin (- 5)"
  by (simp add: fmul_def round_double_neg_numeral)

text \<open>
  C1 (as stated, refuted). A note with no beat that carries both \<open>startTime = 4\<close> and the
  legacy \<open>time = 10\<close> waits 2 ticks, the half of its \<open>startTime\<close>, and not the 5 ticks
  that \<open>time\<close> alone gives: \<open>startTime\<close> takes precedence over \<open>time\<close>.
\<close>

theorem C1_time_over_startTime_counterexample:
  "waitOf (resolveNote readmeComposition 0
            (readmeNote\<lparr>startTime := Some (Fin 4), time := Some (Fin 10)\<rparr>)) = T (Decimal 2)
   \<and> waitOf (resolveNote readmeComposition 0
            (readmeNote\<lparr>startTime := None, time := Some (Fin 10)\<rparr>)) = T (Decimal 5)
   \<and> waitOf (resolveNote readmeComposition 0
            (readmeNote\<lparr>startTime := Some (Fin 4), time := Some (Fin 10)\<rparr>))
       \<noteq> waitOf (resolveNote readmeComposition 0
            (readmeNote\<lparr>startTime := None, time := Some (Fin 10)\<rparr>))"
  by (simp add: waitOf_resolveNote readmeNote_def or_number_def half_of_10 half_of_4
      Math_round_numeral del: Math_round.simps(1))

text \<open>
  C1 (amended). The precedence is beat, then \<open>startTime\<close>, then the legacy \<open>time\<close>: a beat
  alone determines the wait (with the composition's \<open>bpm\<close>); with no beat, \<open>startTime\<close>
  when present determines it, whatever \<open>time\<close> is; \<open>time\<close> is used only when both are
  absent; with no timing field at all the wait is 0.
\<close>

theorem C1_timing_precedence:
  "(beat note = Some b \<longrightarrow>
      waitOf (resolveNote c trackIndex note) = convertBeatToWait b (ToNumber (bpm c)))
   \<and> (beat note = None \<and> startTime note = Some s \<longrightarrow>
        waitOf (resolveNote c trackIndex note) =
          T (ToString (Math_round (fmul (or_number (Some s) (Fin 0)) (Fin (1 / 2))))))
   \<and> (beat note = None \<and> startTime note = None \<and> time note = Some t \<longrightarrow>
        waitOf (resolveNote c trackIndex note) =
          T (ToString (Math_round (fmul (or_number (Some t) (Fin 0)) (Fin (1 / 2))))))
   \<and> (beat note = None \<and> startTime note = None \<and> time note = None \<longrightarrow>
        waitOf (resolveNote c trackIndex note) = T (Decimal 0))"
proof (intro conjI impI)
  assume "beat note = Some b"
  then show "waitOf (resolveNote c trackIndex note) = convertBeatToWait b (ToNumber (bpm c))"
    by (simp add: waitOf_resolveNote)
next
  assume "beat note = None \<and> startTime note = Some s"
  then show "waitOf (resolveNote c trackIndex note) =
      T (ToString (Math_round (fmul (or_number (Some s) (Fin 0)) (Fin (1 / 2)))))"
    by (simp add: waitOf_resolveNote)
next
  assume "beat note = None \<and> startTime note = None \<and> time note = Some t"
  then show "waitOf (resolveNote c trackIndex note) =
      T (ToString (Math_round (fmul (or_number (Some t) (Fin 0)) (Fin (1 / 2)))))"
    by (simp add: waitOf_resolveNote)
next
  assume "beat note = None \<and> startTime note = None \<and> time note = None"
  then show "waitOf (resolveNote c trackIndex note) = T (Decimal 0)"
    using offset_zero by (simp add: waitOf_resolveNote or_number_def del: Math_round.simps(1))
qed

theorem C1_timing_precedence_witness:
  "waitOf (resolveNote readmeComposition 0
      (readmeNote\<lparr>beat := Some (Fin 2), startTime := Some (Fin 4), time := Some (Fin 10)\<rparr>))
     = convertBeatToWait (Fin 2) (Fin 120)
   \<and> waitOf (resolveNote readmeComposition 0
      (readmeNote\<lparr>startTime := Some (Fin 4), time := Some (Fin 10)\<rparr>))
     = T (ToString (Math_round (fmul (or_number (Some (Fin 4)) (Fin 0)) (Fin (1 / 2)))))
   \<and> waitOf (resolveNote readmeComposition 0
      (readmeNote\<lparr>startTime := None, time := Some (Fin 10)\<rparr>))
     = T (ToString (Math_round (fmul (or_number (Some (Fin 10)) (Fin 0)) (Fin (1 / 2)))))
   \<and> waitOf (resolveNote readmeComposition 0 (readmeNote\<lparr>startTime := None\<rparr>)) = T (Decimal 0)"
  using
    C1_timing_precedence [of
      "readmeNote\<lparr>beat := Some (Fin 2), startTime := Some (Fin 4), time := Some (Fin 10)\<rparr>"
      "Fin 2" readmeComposition 0, THEN conjunct1]
    C1_timing_precedence [of
      "readmeNote\<lparr>startTime := Some (Fin 4), time := Some (Fin 10)\<rparr>"
      _ readmeComposition 0 "Fin 4", THEN conjunct2, THEN conjunct1]
    C1_timing_precedence [of
      "readmeNote\<lparr>startTime := None, time := Some (Fin 10)\<rparr>"
      _ readmeComposition 0 _ "Fin 10", THEN conjunct2, THEN conjunct2, THEN conjunct1]
    C1_timing_precedence [of "readmeNote\<lparr>startTime := None\<rparr>" _ readmeComposition 0,
      THEN conjunct2, THEN conjunct2, THEN conjunct2]
  by (simp add: readmeNote_def readmeComposition_def del: Math_round.simps(1))

text \<open>
  C4. For a note with no beat the wait is T followed by \<open>round(rawOffset * 0.5)\<close>, where
  the raw offset is \<open>startTime\<close> (any JSON number), or 0 when no offset is given at all;
  a note that carries the legacy \<open>time = t\<close> instead of \<open>startTime\<close> yields the same note
  event as one that carries \<open>startTime = t\<close>; \<open>time = 10\<close> gives 5 ticks.
\<close>

theorem C4_offset_to_wait:
  "(beat note = None \<and> startTime note = Some s \<and> s \<noteq> NaN \<longrightarrow>
      waitOf (resolveNote c trackIndex note) = T (ToString (Math_round (fmul s (Fin (1 / 2))))))
   \<and> (beat note = None \<and> startTime note = None \<and> time note = None \<longrightarrow>
        waitOf (resolveNote c trackIndex note) =
          T (ToString (Math_round (fmul (Fin 0) (Fin (1 / 2))))))
   \<and> resolveNote c trackIndex (note\<lparr>startTime := None, time := Some t\<rparr>)
       = resolveNote c trackIndex (note\<lparr>startTime := Some t, time := None\<rparr>)
   \<and> waitOf (resolveNote c trackIndex
        (note\<lparr>beat := None, startTime := None, time := Some (Fin 10)\<rparr>)) = T (Decimal 5)"
proof (intro conjI impI)
  assume "beat note = None \<and> startTime note = Some s \<and> s \<noteq> NaN"
  then show "waitOf (resolveNote c trackIndex note) =
      T (ToString (Math_round (fmul s (Fin (1 / 2)))))"
    using or_number_zero_wait [of s]
    by (simp add: waitOf_resolveNote del: Math_round.simps(1))
next
  assume "beat note = None \<and> startTime note = None \<and> time note = None"
  then show "waitOf (resolveNote c trackIndex note) =
      T (ToString (Math_round (fmul (Fin 0) (Fin (1 / 2)))))"
    by (simp add: waitOf_resolveNote or_number_def del: Math_round.simps(1))
next
  have "normalizeNote (note\<lparr>startTime := None, time := Some t\<rparr>)
      = normalizeNote (note\<lparr>startTime := Some t, time := None\<rparr>)"
    by (cases "note") (simp add: normalizeNote_def convertTimeToStartTime_def)
  then show "resolveNote c trackIndex (note\<lparr>startTime := None, time := Some t\<rparr>)
      = resolveNote c trackIndex (note\<lparr>startTime := Some t, time := None\<rparr>)"
    by (simp only: resolveNote_def)
next
  show "waitOf (resolveNote c trackIndex
      (note\<lparr>beat := None, startTime := None, time := Some (Fin 10)\<rparr>)) = T (Decimal 5)"
    by (simp add: waitOf_resolveNote or_number_def half_of_10 Math_round_numeral
        del: Math_round.simps(1))
qed

theorem C4_offset_to_wait_witness:
  "waitOf (resolveNote readmeComposition 0 (readmeNote\<lparr>startTime := Some (Fin 10)\<rparr>))
     = T (ToString (Math_round (fmul (Fin 10) (Fin (1 / 2)))))
   \<and> waitOf (resolveNote readmeComposition 0 (readmeNote\<lparr>startTime := None\<rparr>))
     = T (ToString (Math_round (fmul (Fin 0) (Fin (1 / 2)))))
   \<and> resolveNote readmeComposition 0 (readmeNote\<lparr>startTime := None, time := Some (Fin 10)\<rparr>)
     = resolveNote readmeComposition 0 (readmeNote\<lparr>startTime := Some (Fin 10), time := None\<rparr>)"
  using
    C4_offset_to_wait [of "readmeNote\<lparr>startTime := Some (Fin 10)\<rparr>" "Fin 10"
      readmeComposition 0, THEN conjunct1]
    C4_offset_to_wait [of "readmeNote\<lparr>startTime := None\<rparr>" _
      readmeComposition 0, THEN conjunct2, THEN conjunct1]
    C4_offset_to_wait [of readmeNote _ readmeComposition 0 "Fin 10",
      THEN conjunct2, THEN conjunct2, THEN conjunct1]
  by (simp add: readmeNote_def del: Math_round.simps(1))

section \<open>The sign of the wait\<close>

lemma nonneg_round_double: "0 \<le> q \<Longrightarrow> nonneg (round_double q)"
  using round_double_nonneg [of q] by auto

lemma nonneg_fmul_pos:
  assumes "nonneg x" "0 < k"
  shows "nonneg (fmul x (Fin k))"
proof (cases x)
  case (Fin q)
  with assms have "0 \<le> q * k" by simp
  then have "nonneg (round_double (q * k))"
    by (rule nonneg_round_double)
  with Fin assms show ?thesis
    by (simp add: fmul_def signed_zero_def)
qed (use assms in \<open>simp_all add: fmul_def signed_inf_def\<close>)

lemma nonneg_fdiv_pos:
  assumes "nonneg x" "0 < t"
  shows "nonneg (fdiv x (Fin t))"
proof (cases x)
  case (Fin q)
  with assms have "0 \<le> q / t" by simp
  then have "nonneg (round_double (q / t))"
    by (rule nonneg_round_double)
  with Fin assms show ?thesis
    by (simp add: fdiv_def signed_zero_def)
qed (use assms in \<open>simp_all add: fdiv_def signed_inf_def\<close>)

lemma Math_round_nonneg:
  assumes "0 \<le> q"
  shows "\<exists>n. 0 \<le> n \<and> Math_round (Fin q) = Fin (of_int n)"
proof -
  have "0 \<le> \<lfloor>q + 1 / 2\<rfloor>"
    using assms by simp
  then show ?thesis
    using assms by (cases "\<lfloor>q + 1 / 2\<rfloor> = 0") (auto simp: signed_zero_def Let_def intro: exI [of _ 0])
qed

lemma nonNegativeTicks_round:
  "0 \<le> q \<Longrightarrow> nonNegativeTicks (T (ToString (Math_round (Fin q))))"
  using Math_round_nonneg [of q] by (auto simp del: Math_round.simps(1))

lemma nonneg_ticks_or_infinity:
  assumes "nonneg x"
  shows "nonNegativeTicks (T (ToString (Math_round x))) \<or> T (ToString (Math_round x)) = T TextInfinity"
  using assms nonNegativeTicks_round by (cases x) (simp_all del: Math_round.simps(1))

lemma nonneg_or_number: "nonneg s \<Longrightarrow> nonneg (or_number (Some s) (Fin 0))"
  by (simp add: or_number_def)

lemma nonneg_fsub_1: "1 \<le> b \<Longrightarrow> nonneg (fsub (Fin b) (Fin 1))"
  using nonneg_round_double [of "b - 1"] by (simp add: fsub_def fadd_def)

text \<open>
  C5 (as stated, refuted). A note with \<open>startTime = -10\<close> waits \<open>-5\<close> ticks: nothing
  clamps or rejects a negative offset.
\<close>

theorem C5_negative_wait_counterexample:
  "waitOf (resolveNote readmeComposition 0 (readmeNote\<lparr>startTime := Some (Fin (- 10))\<rparr>))
     = T (Decimal (- 5))
   \<and> \<not> nonNegativeTicks
         (waitOf (resolveNote readmeComposition 0 (readmeNote\<lparr>startTime := Some (Fin (- 10))\<rparr>)))"
  by (simp add: waitOf_resolveNote readmeNote_def or_number_def half_of_minus_10
      Math_round_neg_numeral del: Math_round.simps(1))

text \<open>
  C5 (amended). The wait is a whole, non-negative number of ticks (or Infinity, where the
  arithmetic overflows) whenever the timing input is not negative: a beat of at least 1
  with a positive finite \<open>bpm\<close>; or, with no beat, a \<open>startTime\<close> that is not negative,
  or, with no \<open>startTime\<close> either, a legacy \<open>time\<close> that is not negative, or no timing
  field at all.
\<close>

theorem C5_wait_not_negative:
  "(beat note = Some (Fin b) \<and> 1 \<le> b \<and> bpm c = Some (Fin t) \<and> 0 < t \<longrightarrow>
      nonNegativeTicks (waitOf (resolveNote c trackIndex note))
      \<or> waitOf (resolveNote c trackIndex note) = T TextInfinity)
   \<and> (beat note = None \<and> startTime note = Some s \<and> nonneg s \<longrightarrow>
        nonNegativeTicks (waitOf (resolveNote c trackIndex note))
        \<or> waitOf (resolveNote c trackIndex note) = T TextInfinity)
   \<and> (beat note = None \<and> startTime note = None \<and> time note = Some s \<and> nonneg s \<longrightarrow>
        nonNegativeTicks (waitOf (resolveNote c trackIndex note))
        \<or> waitOf (resolveNote c trackIndex note) = T TextInfinity)
   \<and> (beat note = None \<and> startTime note = None \<and> time note = None \<longrightarrow>
        nonNegativeTicks (waitOf (resolveNote c trackIndex note)))"
proof (intro conjI impI)
  assume a: "beat note = Some (Fin b) \<and> 1 \<le> b \<and> bpm c = Some (Fin t) \<and> 0 < t"
  then have "nonneg (fdiv (fmul (fsub (Fin b) (Fin 1)) PPQ) (Fin t))"
    unfolding PPQ_def by (intro nonneg_fdiv_pos nonneg_fmul_pos nonneg_fsub_1) simp_all
  then have "nonNegativeTicks (convertBeatToWait (Fin b) (Fin t))
      \<or> convertBeatToWait (Fin b) (Fin t) = T TextInfinity"
    unfolding convertBeatToWait_def Let_def by (rule nonneg_ticks_or_infinity)
  with a show "nonNegativeTicks (waitOf (resolveNote c trackIndex note))
      \<or> waitOf (resolveNote c trackIndex note) = T TextInfinity"
    by (simp add: waitOf_resolveNote)
next
  assume a: "beat note = None \<and> startTime note = Some s \<and> nonneg s"
  then have "nonneg (fmul (or_number (Some s) (Fin 0)) (Fin (1 / 2)))"
    by (intro nonneg_fmul_pos nonneg_or_number) simp_all
  then have "nonNegativeTicks (T (ToString (Math_round (fmul (or_number (Some s) (Fin 0)) (Fin (1 / 2))))))
      \<or> T (ToString (Math_round (fmul (or_number (Some s) (Fin 0)) (Fin (1 / 2))))) = T TextInfinity"
    by (rule nonneg_ticks_or_infinity)
  with a show "nonNegativeTicks (waitOf (resolveNote c trackIndex note))
      \<or> waitOf (resolveNote c trackIndex note) = T TextInfinity"
    by (simp add: waitOf_resolveNote del: Math_round.simps(1))
next
  assume a: "beat note = None \<and> startTime note = None \<and> time note = Some s \<and> nonneg s"
  then have "nonneg (fmul (or_number (Some s) (Fin 0)) (Fin (1 / 2)))"
    by (intro nonneg_fmul_pos nonneg_or_number) simp_all
  then have "nonNegativeTicks (T (ToString (Math_round (fmul (or_number (Some s) (Fin 0)) (Fin (1 / 2))))))
      \<or> T (ToString (Math_round (fmul (or_number (Some s) (Fin 0)) (Fin (1 / 2))))) = T TextInfinity"
    by (rule nonneg_ticks_or_infinity)
  with a show "nonNegativeTicks (waitOf (resolveNote c trackIndex note))
      \<or> waitOf (resolveNote c trackIndex note) = T TextInfinity"
    by (simp add: waitOf_resolveNote del: Math_round.simps(1))
next
  assume "beat note = None \<and> startTime note = None \<and> time note = None"
  then show "nonNegativeTicks (waitOf (resolveNote c trackIndex note))"
    using offset_zero by (simp add: waitOf_resolveNote or_number_def del: Math_round.simps(1))
qed

theorem C5_wait_not_negative_witness:
  "(nonNegativeTicks (waitOf (resolveNote readmeComposition 0 (readmeNote\<lparr>beat := Some (Fin 3)\<rparr>)))
      \<or> waitOf (resolveNote readmeComposition 0 (readmeNote\<lparr>beat := Some (Fin 3)\<rparr>)) = T TextInfinity)
   \<and> (nonNegativeTicks (waitOf (resolveNote readmeComposition 0 readmeNote))
      \<or> waitOf (resolveNote readmeComposition 0 readmeNote) = T TextInfinity)
   \<and> (nonNegativeTicks (waitOf (resolveNote readmeComposition 0
          (readmeNote\<lparr>startTime := None, time := Some (Fin 10)\<rparr>)))
      \<or> waitOf (resolveNote readmeComposition 0
          (readmeNote\<lparr>startTime := None, time := Some (Fin 10)\<rparr>)) = T TextInfinity)
   \<and> nonNegativeTicks (waitOf (resolveNote readmeComposition 0 (readmeNote\<lparr>startTime := None\<rparr>)))"
  using
    C5_wait_not_negative [of "readmeNote\<lparr>beat := Some (Fin 3)\<rparr>" 3 readmeComposition 120 0,
      THEN conjunct1]
    C5_wait_not_negative [of readmeNote _ readmeComposition _ 0 "Fin 0",
      THEN conjunct2, THEN conjunct1]
    C5_wait_not_negative [of "readmeNote\<lparr>startTime := None, time := Some (Fin 10)\<rparr>" _
      readmeComposition _ 0 "Fin 10", THEN conjunct2, THEN conjunct2, THEN conjunct1]
    C5_wait_not_negative [of "readmeNote\<lparr>startTime := None\<rparr>" _ readmeComposition _ 0,
      THEN conjunct2, THEN conjunct2, THEN conjunct2]
  by (simp add: readmeNote_def readmeComposition_def)

section \<open>Velocity and channel\<close>

lemma toward_zero_of_nat_div: "toward_zero (of_nat k / 16) = int (k div 16)"
proof -
  have "\<lfloor>(of_nat k :: rat) / of_nat 16\<rfloor> = int (k div 16)"
    by (rule floor_divide_of_nat_eq)
  then show ?thesis
    by (simp add: toward_zero_def)
qed

lemma toward_zero_neg_of_nat_div: "toward_zero (- (of_nat k / 16)) = - int (k div 16)"
proof (cases "k = 0")
  case True
  then show ?thesis by (simp add: toward_zero_def)
next
  case False
  have "\<lfloor>(of_nat k :: rat) / of_nat 16\<rfloor> = int (k div 16)"
    by (rule floor_divide_of_nat_eq)
  then have "\<lceil>- ((of_nat k :: rat) / 16)\<rceil> = - int (k div 16)"
    by (simp add: ceiling_def)
  with False show ?thesis
    by (simp add: toward_zero_def)
qed

lemma of_nat_mod_16: "(of_nat k :: rat) - 16 * of_int (int (k div 16)) = of_nat (k mod 16)"
proof -
  have "(of_nat k :: rat) = of_nat (16 * (k div 16) + k mod 16)"
    by (simp only: mult_div_mod_eq)
  also have "\<dots> = 16 * of_nat (k div 16) + of_nat (k mod 16)"
    by (simp only: of_nat_add of_nat_mult of_nat_numeral)
  finally show ?thesis by simp
qed

text \<open>The remainder by 16 of a natural number, and of the negative of one.\<close>

lemma frem_of_nat_16: "frem (Fin (of_nat k)) (Fin 16) = Fin (of_nat (k mod 16))"
proof (cases "k = 0")
  case True
  then show ?thesis by (simp add: frem_def)
next
  case False
  have "k mod 16 < 2 ^ 53"
    by (rule less_trans [of _ 16]) simp_all
  then have "round_double (of_nat (k mod 16)) = Fin (of_nat (k mod 16))"
    by (rule round_double_of_nat)
  with False show ?thesis
    using of_nat_mod_16 [of k]
    by (simp add: frem_def toward_zero_of_nat_div signed_zero_def Let_def)
qed

lemma frem_neg_of_nat_16:
  assumes "k mod 16 \<noteq> 0"
  shows "frem (Fin (- of_nat k)) (Fin 16) = Fin (- of_nat (k mod 16))"
proof -
  from assms have k: "k \<noteq> 0" by auto
  have "int (k mod 16) < 2 ^ 53" "0 < int (k mod 16)"
    using assms by simp_all
  then have rd: "round_double (- of_nat (k mod 16)) = Fin (- of_nat (k mod 16))"
    using round_double_abs_int [of "int (k mod 16)" "- of_nat (k mod 16)"] by simp
  have "- (of_nat k :: rat) - 16 * of_int (- int (k div 16)) = - of_nat (k mod 16)"
    using of_nat_mod_16 [of k] by simp
  with k assms rd show ?thesis
    by (simp add: frem_def toward_zero_neg_of_nat_div signed_zero_def Let_def)
qed

lemma velocityOf_resolveNote:
  "velocityOf (resolveNote c trackIndex note) = (case velocity note of Some v \<Rightarrow> v | None \<Rightarrow> Fin 100)"
  by (simp add: resolveNote_def addNote_def Let_def velocity_normalizeNote)

lemma channelOf_resolveNote:
  "channelOf (resolveNote c trackIndex note) =
     (case channel note of
        Some ch \<Rightarrow> frem ch (Fin 16)
      | None \<Rightarrow> frem (Fin (of_nat trackIndex)) (Fin 16))"
  by (simp add: resolveNote_def addNote_def Let_def channel_normalizeNote)

text \<open>
  C6. The velocity defaults to 100 and the channel to \<open>trackIndex mod 16\<close>, and a
  supplied channel is meant to wrap into 0 to 15. The code computes \<open>note.channel % 16\<close>,
  and the \<open>%\<close> of JavaScript keeps the sign of the dividend: a note with the supplied
  channel \<open>-1\<close> resolves to channel \<open>-1\<close>, which is not \<open>-1 mod 16 = 15\<close>.
\<close>

theorem C6_negative_channel_not_wrapped:
  "channelOf (resolveNote readmeComposition 0 (readmeNote\<lparr>channel := Some (Fin (- 1))\<rparr>)) = Fin (- 1)
   \<and> channelOf (resolveNote readmeComposition 0 (readmeNote\<lparr>channel := Some (Fin (- 1))\<rparr>))
       \<noteq> Fin (of_int ((- 1) mod 16))"
  using frem_neg_of_nat_16 [of 1]
  by (simp add: channelOf_resolveNote)

text \<open>
  What the code resolves: the velocity defaults to 100 when absent; the channel defaults
  to \<open>trackIndex mod 16\<close> when absent (track index 17 gives channel 1); a supplied
  channel resolves to the remainder \<open>channel % 16\<close> of JavaScript, which is
  \<open>channel mod 16\<close> for a channel that is a natural number.
\<close>

lemma velocity_and_channel_resolved:
  "velocityOf (resolveNote c trackIndex note) = (case velocity note of Some v \<Rightarrow> v | None \<Rightarrow> Fin 100)
   \<and> (channel note = None \<longrightarrow>
        channelOf (resolveNote c trackIndex note) = Fin (of_nat (trackIndex mod 16)))
   \<and> (channel note = None \<longrightarrow> channelOf (resolveNote c 17 note) = Fin 1)
   \<and> (channel note = Some x \<longrightarrow> channelOf (resolveNote c trackIndex note) = frem x (Fin 16))
   \<and> (channel note = Some (Fin (of_nat k)) \<longrightarrow>
        channelOf (resolveNote c trackIndex note) = Fin (of_nat (k mod 16)))
   \<and> (channel note = Some (Fin (- of_nat k)) \<and> k mod 16 \<noteq> 0 \<longrightarrow>
        channelOf (resolveNote c trackIndex note) = Fin (- of_nat (k mod 16)))"
proof (intro conjI impI)
  show "velocityOf (resolveNote c trackIndex note) = (case velocity note of Some v \<Rightarrow> v | None \<Rightarrow> Fin 100)"
    by (rule velocityOf_resolveNote)
next
  assume "channel note = None"
  then show "channelOf (resolveNote c trackIndex note) = Fin (of_nat (trackIndex mod 16))"
    by (simp add: channelOf_resolveNote frem_of_nat_16)
next
  assume "channel note = None"
  then show "channelOf (resolveNote c 17 note) = Fin 1"
    using frem_of_nat_16 [of 17] by (simp add: channelOf_resolveNote)
next
  assume "channel note = Some x"
  then show "channelOf (resolveNote c trackIndex note) = frem x (Fin 16)"
    by (simp add: channelOf_resolveNote)
next
  assume "channel note = Some (Fin (of_nat k))"
  then show "channelOf (resolveNote c trackIndex note) = Fin (of_nat (k mod 16))"
    by (simp add: channelOf_resolveNote frem_of_nat_16)
next
  assume "channel note = Some (Fin (- of_nat k)) \<and> k mod 16 \<noteq> 0"
  then show "channelOf (resolveNote c trackIndex note) = Fin (- of_nat (k mod 16))"
    by (simp add: channelOf_resolveNote frem_neg_of_nat_16)
qed

section \<open>The tempo\<close>

lemma isSetTempo_addNote: "\<not> isSetTempo (addNote c trackIndex note)"
  by (simp add: addNote_def Let_def)

lemma isNoteEvent_addNote: "isNoteEvent (addNote c trackIndex note)"
  by (simp add: addNote_def Let_def)

lemma filter_isSetTempo_notes: "filter isSetTempo (map (addNote c trackIndex) ns) = []"
  by (induction ns) (simp_all add: isSetTempo_addNote)

lemma filter_isNoteEvent_notes:
  "filter isNoteEvent (map (addNote c trackIndex) ns) = map (addNote c trackIndex) ns"
  by (induction ns) (simp_all add: isNoteEvent_addNote)

lemma filter_isSetTempo_buildTrack:
  "filter isSetTempo (buildTrack c trackData trackIndex)
     = [SetTempo (or_number (or_undefined (bpm c) (tempo c)) (Fin 120))]"
  by (simp add: buildTrack_def Let_def filter_isSetTempo_notes split: option.splits)

lemma filter_isNoteEvent_buildTrack:
  "filter isNoteEvent (buildTrack c trackData trackIndex)
     = map (addNote c trackIndex) (notes trackData)"
  by (simp add: buildTrack_def Let_def filter_isNoteEvent_notes split: option.splits)

lemma truthy_iff: "truthy x \<longleftrightarrow> \<not> is_zero x \<and> x \<noteq> NaN"
  by (cases x) simp_all

lemma or_chain_specTempo:
  assumes "bpm c \<noteq> Some NaN" "tempo c \<noteq> Some NaN"
  shows "or_number (or_undefined (bpm c) (tempo c)) (Fin 120) = specTempo c"
  using assms
  by (auto simp: or_number_def or_undefined_def specTempo_def truthy_iff split: option.splits)

lemma tempo_normalizeComposition: "tempo (normalizeComposition c) = tempo c"
  by (simp add: normalizeComposition_notes)

lemma set_buildTracks:
  "tr \<in> set (buildTracks c) \<Longrightarrow> \<exists>trackData trackIndex. tr = buildTrack c trackData trackIndex"
  by (auto simp: buildTracks_def)

text \<open>
  C10. Every track the writer receives holds exactly one tempo-set event, and its value
  is the composition's \<open>bpm\<close> when present and non-zero, otherwise the legacy \<open>tempo\<close>
  when present and non-zero, otherwise 120 (for \<open>bpm\<close> and \<open>tempo\<close> as JSON gives them:
  never \<open>NaN\<close>).
\<close>

theorem C10_tempo_fallback:
  assumes "bpm c \<noteq> Some NaN" and "tempo c \<noteq> Some NaN"
  shows "\<forall>tr \<in> set (buildTracks (normalizeComposition c)).
           filter isSetTempo tr = [SetTempo (specTempo c)]"
proof
  fix tr
  assume "tr \<in> set (buildTracks (normalizeComposition c))"
  then obtain trackData trackIndex
    where tr: "tr = buildTrack (normalizeComposition c) trackData trackIndex"
    using set_buildTracks by blast
  have "or_number (or_undefined (bpm c) (tempo c)) (Fin 120) = specTempo c"
    using assms by (rule or_chain_specTempo)
  then show "filter isSetTempo tr = [SetTempo (specTempo c)]"
    by (simp add: tr filter_isSetTempo_buildTrack bpm_normalizeComposition
        tempo_normalizeComposition)
qed

lemma buildTracks_readme:
  "buildTracks (normalizeComposition (readmeComposition\<lparr>bpm := b, tempo := t\<rparr>)) =
     [buildTrack (normalizeComposition (readmeComposition\<lparr>bpm := b, tempo := t\<rparr>))
        \<lparr>name = Some ''Piano'', instrument = Some (Fin 0), notes = [normalizeNote readmeNote]\<rparr> 0]"
  by (simp add: buildTracks_def normalizeComposition_notes readmeComposition_def enumerate_eq_zip)

theorem C10_tempo_fallback_witness:
  "filter isSetTempo (hd (buildTracks (normalizeComposition
      (readmeComposition\<lparr>bpm := Some (Fin 90), tempo := Some (Fin 60)\<rparr>)))) = [SetTempo (Fin 90)]
   \<and> filter isSetTempo (hd (buildTracks (normalizeComposition
      (readmeComposition\<lparr>bpm := Some (Fin 0), tempo := Some (Fin 60)\<rparr>)))) = [SetTempo (Fin 60)]
   \<and> filter isSetTempo (hd (buildTracks (normalizeComposition
      (readmeComposition\<lparr>bpm := None, tempo := Some (Fin 60)\<rparr>)))) = [SetTempo (Fin 60)]
   \<and> filter isSetTempo (hd (buildTracks (normalizeComposition
      (readmeComposition\<lparr>bpm := None, tempo := None\<rparr>)))) = [SetTempo (Fin 120)]"
  using
    C10_tempo_fallback [of "readmeComposition\<lparr>bpm := Some (Fin 90), tempo := Some (Fin 60)\<rparr>"]
    C10_tempo_fallback [of "readmeComposition\<lparr>bpm := Some (Fin 0), tempo := Some (Fin 60)\<rparr>"]
    C10_tempo_fallback [of "readmeComposition\<lparr>bpm := None, tempo := Some (Fin 60)\<rparr>"]
    C10_tempo_fallback [of "readmeComposition\<lparr>bpm := None, tempo := None\<rparr>"]
  by (simp add: buildTracks_readme specTempo_def)

section \<open>Chunking and progress\<close>

lemma slice_append_drop: "slice array i (i + sz) @ drop (i + sz) array = drop i array"
proof -
  have "drop (i + sz) array = drop sz (drop i array)"
    by (simp add: add.commute)
  then show ?thesis
    by (simp only: slice_def add_diff_cancel_left' append_take_drop_id)
qed

text \<open>With a positive size the loop of \<open>chunkArray\<close> ends, and the chunks, put end to
  end, are the rest of the array.\<close>

lemma chunkArray_loop_returns:
  assumes "0 < sz"
  shows "\<exists>chunks'. chunkArray_loop array sz i chunks = Some chunks'
           \<and> concat chunks' = concat chunks @ drop i array"
proof (induction "length array - i" arbitrary: i chunks rule: less_induct)
  case less
  show ?case
  proof (cases "i < length array")
    case True
    with assms have "length array - (i + sz) < length array - i"
      by simp
    from less [OF this, of "chunks @ [slice array i (i + sz)]"]
    obtain chunks' where
      "chunkArray_loop array sz (i + sz) (chunks @ [slice array i (i + sz)]) = Some chunks'"
      "concat chunks' = concat (chunks @ [slice array i (i + sz)]) @ drop (i + sz) array"
      by blast
    with True show ?thesis
      by (subst chunkArray_loop.simps) (simp add: slice_append_drop)
  next
    case False
    then show ?thesis
      by (subst chunkArray_loop.simps) simp
  qed
qed

lemma chunkArray_returns:
  "0 < sz \<Longrightarrow> \<exists>chunks. chunkArray array sz = Some chunks \<and> concat chunks = array"
  using chunkArray_loop_returns [of sz array 0 "[]"] by (simp add: chunkArray_def)

lemma processTracks_returns:
  "\<exists>sent. processTracks totalTracks processedTracks ts = Some sent \<and> length sent = length ts"
proof (induction ts arbitrary: processedTracks)
  case Nil
  show ?case by simp
next
  case (Cons track rest)
  obtain chunks where c: "chunkArray (notes track) batchSize = Some chunks"
    using chunkArray_returns [of batchSize "notes track"] by (auto simp: batchSize_def)
  obtain sent where s: "processTracks totalTracks (Suc processedTracks) rest = Some sent"
    "length sent = length rest"
    using Cons [of "Suc processedTracks"] by blast
  show ?case
    by (simp add: c s Let_def)
qed

lemma processMidiComposition_returns: "\<exists>sent. processMidiComposition c = Some sent"
  using processTracks_returns [of "length (tracks c)" 0 "tracks c"]
  by (auto simp: processMidiComposition_def)

section \<open>Order of the events\<close>

lemma length_buildTracks: "length (buildTracks c) = length (tracks c)"
  by (simp add: buildTracks_def)

lemma nth_buildTracks:
  "i < length (tracks c) \<Longrightarrow> buildTracks c ! i = buildTrack c (tracks c ! i) i"
  by (simp add: buildTracks_def nth_enumerate_eq)

lemma length_tracks_normalizeComposition: "length (tracks (normalizeComposition c)) = length (tracks c)"
  by (simp add: normalizeComposition_notes)

lemma notes_normalizeComposition:
  "i < length (tracks c) \<Longrightarrow>
     notes (tracks (normalizeComposition c) ! i) = map normalizeNote (notes (tracks c ! i))"
  by (simp add: normalizeComposition_notes)

lemma noteEvents_normalized:
  assumes "i < length (tracks c)"
  shows "filter isNoteEvent (buildTracks (normalizeComposition c) ! i)
           = map (resolveNote c i) (notes (tracks c ! i))"
proof -
  have "filter isNoteEvent (buildTracks (normalizeComposition c) ! i)
      = map (addNote (normalizeComposition c) i) (notes (tracks (normalizeComposition c) ! i))"
    using assms
    by (simp add: nth_buildTracks length_tracks_normalizeComposition filter_isNoteEvent_buildTrack)
  also have "\<dots> = map (resolveNote c i) (notes (tracks c ! i))"
    using assms by (simp add: notes_normalizeComposition resolveNote_def)
  finally show ?thesis .
qed

lemma pitchOf_resolveNote: "pitchOf (resolveNote c trackIndex note) = [pitch note]"
  by (simp add: resolveNote_def addNote_def Let_def pitch_normalizeNote noteToMidiNumber_def
      split: pitch_value.splits)

text \<open>
  C9. The writer receives one track per track of the composition, in the order declared.
  The note events of track \<open>i\<close> are, in the order declared, the resolved events of its
  notes, one for each note (so the pitches of the events are the pitches of the notes,
  in order). The chunking of a track (\<open>chunkArray\<close> with the batch size 50, applied to
  tracks of more than 50 notes) ends and loses or reorders nothing: the events taken
  chunk by chunk are the same list of events. \<open>processMidiComposition\<close> returns.
\<close>

theorem C9_order_and_count:
  "length (buildTracks (normalizeComposition c)) = length (tracks c)
   \<and> (\<forall>i < length (tracks c).
        filter isNoteEvent (buildTracks (normalizeComposition c) ! i)
          = map (resolveNote c i) (notes (tracks c ! i))
        \<and> map pitchOf (filter isNoteEvent (buildTracks (normalizeComposition c) ! i))
          = map (\<lambda>n. [pitch n]) (notes (tracks c ! i))
        \<and> length (filter isNoteEvent (buildTracks (normalizeComposition c) ! i))
          = length (notes (tracks c ! i))
        \<and> (\<exists>chunks. chunkArray (notes (tracks (normalizeComposition c) ! i)) batchSize = Some chunks
              \<and> concat (map (map (addNote (normalizeComposition c) i)) chunks)
                  = filter isNoteEvent (buildTracks (normalizeComposition c) ! i)))
   \<and> (\<exists>sent. processMidiComposition (normalizeComposition c) = Some sent
         \<and> length sent = length (tracks c))"
proof (intro conjI allI impI)
  show "length (buildTracks (normalizeComposition c)) = length (tracks c)"
    by (simp add: length_buildTracks length_tracks_normalizeComposition)
next
  fix i assume i: "i < length (tracks c)"
  then show ev: "filter isNoteEvent (buildTracks (normalizeComposition c) ! i)
      = map (resolveNote c i) (notes (tracks c ! i))"
    by (rule noteEvents_normalized)
  then show "map pitchOf (filter isNoteEvent (buildTracks (normalizeComposition c) ! i))
      = map (\<lambda>n. [pitch n]) (notes (tracks c ! i))"
    by (simp add: pitchOf_resolveNote)
  from ev show "length (filter isNoteEvent (buildTracks (normalizeComposition c) ! i))
      = length (notes (tracks c ! i))"
    by simp
  obtain chunks where ch:
    "chunkArray (notes (tracks (normalizeComposition c) ! i)) batchSize = Some chunks"
    "concat chunks = notes (tracks (normalizeComposition c) ! i)"
    using chunkArray_returns [of batchSize] by (auto simp: batchSize_def)
  have "concat (map (map (addNote (normalizeComposition c) i)) chunks)
      = map (addNote (normalizeComposition c) i) (concat chunks)"
    by (simp add: map_concat)
  also have "\<dots> = filter isNoteEvent (buildTracks (normalizeComposition c) ! i)"
    using i
    by (simp add: ch(2) nth_buildTracks length_tracks_normalizeComposition
        filter_isNoteEvent_buildTrack)
  finally show "\<exists>chunks. chunkArray (notes (tracks (normalizeComposition c) ! i)) batchSize = Some chunks
      \<and> concat (map (map (addNote (normalizeComposition c) i)) chunks)
          = filter isNoteEvent (buildTracks (normalizeComposition c) ! i)"
    using ch(1) by blast
next
  show "\<exists>sent. processMidiComposition (normalizeComposition c) = Some sent
      \<and> length sent = length (tracks c)"
    using processTracks_returns [of "length (tracks (normalizeComposition c))" 0
        "tracks (normalizeComposition c)"]
    by (simp add: processMidiComposition_def length_tracks_normalizeComposition)
qed

theorem C9_order_and_count_witness:
  "length (buildTracks (normalizeComposition longComposition)) = 2
   \<and> batchSize < length (notes (tracks longComposition ! 0))
   \<and> length (filter isNoteEvent (buildTracks (normalizeComposition longComposition) ! 0)) = 51
   \<and> map pitchOf (filter isNoteEvent (buildTracks (normalizeComposition longComposition) ! 0))
       = map (\<lambda>k. [PitchNumber (Fin (of_nat k))]) [0..<51]"
proof -
  have l: "length (tracks longComposition) = 2"
    by (simp add: longComposition_def)
  have n: "notes (tracks longComposition ! 0)
      = map (\<lambda>k. readmeNote\<lparr>pitch := PitchNumber (Fin (of_nat k))\<rparr>) [0..<51]"
    by (simp add: longComposition_def)
  have "0 < length (tracks longComposition)"
    by (simp add: l)
  with C9_order_and_count [of longComposition]
  have "length (buildTracks (normalizeComposition longComposition)) = length (tracks longComposition)"
    and "map pitchOf (filter isNoteEvent (buildTracks (normalizeComposition longComposition) ! 0))
      = map (\<lambda>n. [pitch n]) (notes (tracks longComposition ! 0))"
    and "length (filter isNoteEvent (buildTracks (normalizeComposition longComposition) ! 0))
      = length (notes (tracks longComposition ! 0))"
    by blast+
  then show ?thesis
    by (simp add: l n batchSize_def comp_def)
qed

section \<open>No source of the composition\<close>

text \<open>
  C8. A request for \<open>create_midi\<close> that supplies neither a composition nor a composition
  file (or only empty strings) is answered with the InvalidParams error; the disk is left
  as it was: no file is written and no directory made. Only the notification that the
  generation started has been sent.
\<close>

theorem C8_neither_source:
  assumes "toolName req = ''create_midi''"
    and "\<not> truthy_composition (composition (arguments req))"
    and "\<not> truthy_string (composition_file (arguments req))"
  shows "handler h d req =
    Some (ErrorResponse (McpError InvalidParams CompositionRequired), d, [Progress (Fin 0) Started])"
  using assms by (simp add: handler_def Let_def)

theorem C8_neither_source_witness:
  "handler exampleHost emptyDisk \<lparr>toolName = ''create_midi'', arguments = exampleArgs\<rparr> =
    Some (ErrorResponse (McpError InvalidParams CompositionRequired), emptyDisk,
          [Progress (Fin 0) Started])"
  using C8_neither_source [of "\<lparr>toolName = ''create_midi'', arguments = exampleArgs\<rparr>"
      exampleHost emptyDisk]
  by (simp add: exampleArgs_def)

lemma frem_0_16: "frem (Fin 0) (Fin 16) = Fin 0"
  by (simp add: frem_def)

lemma progress_1_1: "Math_floor (fmul (fdiv (Fin 1) (Fin 1)) (Fin 100)) = Fin 100"
  by (simp add: fdiv_def fmul_def round_double_1 round_double_numeral)

lemma buildTracks_readmeComposition:
  "buildTracks (normalizeComposition readmeComposition) =
     [[TrackName ''Piano'', SetTempo (Fin 120), SetTimeSignature (Fin 4) (Fin 4),
       ProgramChangeEvent (Fin 0) (Fin 0),
       NoteEvent [PitchNumber (Fin 60)] (DurationString ''4'') (Fin 100) (Fin 0) (T (Decimal 0))]]"
  using offset_zero
  by (simp add: buildTracks_def buildTrack_def normalizeComposition_notes readmeComposition_def
      normalizeNote_def convertNumericDuration_def convertTimeToStartTime_def readmeNote_def
      addNote_def noteToMidiNumber_def or_number_def or_undefined_def frem_0_16 Let_def
      del: Math_round.simps(1))

lemma processMidiComposition_readmeComposition:
  "processMidiComposition (normalizeComposition readmeComposition) =
     Some [Progress (Fin 100) (ProcessingTrack 1 1)]"
  by (simp add: processMidiComposition_def normalizeComposition_notes readmeComposition_def
      batchSize_def progress_1_1 Let_def del: Math_floor.simps(1))

text \<open>
  The end-to-end example of the README: the composition of the README with the title
  Test and an absolute output path yields the success response naming that path, and
  the file written holds one track with one note event: pitch 60, a quarter note,
  velocity 100, wait 0.
\<close>

theorem readme_end_to_end:
  "handler exampleHost emptyDisk
     (exampleRequest\<lparr>arguments := exampleArgs
        \<lparr>composition := Some (CompositionObject readmeComposition)\<rparr>\<rparr>)
   = Some (Generated ''Test'' ''/music/test.mid'',
       \<lparr>existing = {''/music/test.mid''},
        written = [''/music/test.mid'' \<mapsto>
          [[TrackName ''Piano'', SetTempo (Fin 120), SetTimeSignature (Fin 4) (Fin 4),
            ProgramChangeEvent (Fin 0) (Fin 0),
            NoteEvent [PitchNumber (Fin 60)] (DurationString ''4'') (Fin 100) (Fin 0)
              (T (Decimal 0))]]]\<rparr>,
       [Progress (Fin 0) Started, Progress (Fin 100) (ProcessingTrack 1 1),
        Progress (Fin 100) Completed])"
  by (simp add: handler_def exampleRequest_def exampleArgs_def loadComposition_def Let_def
      createMidiFile_def processMidiComposition_readmeComposition buildTracks_readmeComposition
      writeMidiFile_def exampleHost_def emptyDisk_def)

section \<open>The rounding is that of binary64\<close>

text \<open>\<open>exponent a\<close> is the binary exponent of \<open>a\<close>: \<open>2\<^sup>e \<le> a < 2\<^sup>e\<^sup>+\<^sup>1\<close>.\<close>

lemma exponent_bounds:
  assumes "0 < a"
  shows "pow2 (exponent a) \<le> a \<and> a < pow2 (exponent a + 1)"
proof (cases "1 \<le> a")
  case True
  define n where "n = \<lfloor>a\<rfloor>"
  have n1: "0 < n" using True by (simp add: n_def)
  define e where "e = bitlen n - 1"
  have e0: "0 \<le> e"
    using n1 bitlen_ge_iff_power[of 1 n] by (simp add: e_def)
  have b: "2 ^ nat e \<le> n" "n < 2 ^ nat (e + 1)"
    using bitlen_bounds [OF n1] by (simp_all add: e_def)
  have "(2::rat) ^ nat e = of_int (2 ^ nat e)" by simp
  also have "\<dots> \<le> of_int n" using b(1) by (simp only: of_int_le_iff)
  also have "\<dots> \<le> a" by (simp add: n_def)
  finally have lo: "(2::rat) ^ nat e \<le> a" .
  have "n + 1 \<le> 2 ^ nat (e + 1)" using b(2) by simp
  then have "(of_int (n + 1) :: rat) \<le> of_int (2 ^ nat (e + 1))" by (simp only: of_int_le_iff)
  then have ne: "(of_int (n + 1) :: rat) \<le> 2 ^ nat (e + 1)" by simp
  have "a < of_int (n + 1)" using floor_correct [of a] by (simp add: n_def)
  then have hi: "a < 2 ^ nat (e + 1)" using ne by (rule order_less_le_trans)
  have "exponent a = e" using True by (simp add: exponent_def e_def n_def)
  with lo hi e0 show ?thesis by (simp add: pow2_def)
next
  case False
  with assms have a1: "a < 1" by simp
  define m where "m = \<lceil>1 / a\<rceil>"
  have "1 < 1 / a" using assms a1 by simp
  then have m2: "2 \<le> m" unfolding m_def by linarith
  define k where "k = bitlen (m - 1)"
  have m1: "0 < m - 1" using m2 by simp
  have k1: "1 \<le> k"
    using m1 bitlen_ge_iff_power[of 1 "m - 1"] by (simp add: k_def)
  have b: "2 ^ nat (k - 1) \<le> m - 1" "m - 1 < 2 ^ nat k"
    using bitlen_bounds [OF m1] by (simp_all add: k_def)
  have "(of_int (2 ^ nat (k - 1)) :: rat) \<le> of_int (m - 1)"
    using b(1) by (simp only: of_int_le_iff)
  then have "(2::rat) ^ nat (k - 1) \<le> of_int (m - 1)" by simp
  moreover have "(of_int (m - 1) :: rat) < 1 / a" unfolding m_def by linarith
  ultimately have lo: "(2::rat) ^ nat (k - 1) < 1 / a" by (rule order_le_less_trans)
  have "m \<le> 2 ^ nat k" using b(2) by simp
  then have "(of_int m :: rat) \<le> of_int (2 ^ nat k)" by (simp only: of_int_le_iff)
  then have mk: "(of_int m :: rat) \<le> 2 ^ nat k" by simp
  have "1 / a \<le> of_int m" by (simp add: m_def)
  then have hi: "1 / a \<le> (2::rat) ^ nat k" using mk by (rule order_trans)
  have ex: "exponent a = - k" using False by (simp add: exponent_def k_def m_def)
  have p1: "pow2 (- k) = 1 / 2 ^ nat k" using k1 by (simp add: pow2_def)
  have p2: "pow2 (- k + 1) = 1 / 2 ^ nat (k - 1)"
  proof (cases "k = 1")
    case True
    then show ?thesis by (simp add: pow2_def)
  next
    case False
    with k1 have "\<not> 0 \<le> - k + 1" "nat (- (- k + 1)) = nat (k - 1)" by simp_all
    then show ?thesis by (simp add: pow2_def)
  qed
  have "1 / 2 ^ nat k \<le> a"
    using hi assms by (simp add: field_simps)
  moreover have "a < 1 / 2 ^ nat (k - 1)"
    using lo assms by (simp add: field_simps)
  ultimately show ?thesis unfolding ex p1 p2 by (rule conjI)
qed

text \<open>Known binary64 values: \<open>0.1\<close>, the largest finite value, the overflow threshold,
  the smallest subnormal value and the underflow to zero.\<close>

lemma bitlen_numeral_eq: "bitlen (numeral w) = bitlen (numeral w div 2) + 1"
  by (subst compute_bitlen) simp

lemma round_double_tenth: "round_double (1 / 10) = Fin (3602879701896397 / 36028797018963968)"
proof -
  have "bitlen 9 = 4"
    by (simp add: bitlen_numeral_eq bitlen_1)
  then have "exponent (1 / 10) = - 4"
    by (simp add: exponent_def)
  then show ?thesis
    unfolding round_double_def Let_def
    by (simp add: pow2_def round_half_even_def Let_def floor_rat_numeral)
qed

section \<open>Further facts\<close>

text \<open>A tool of another name is answered with MethodNotFound, before any notification.\<close>

lemma handler_unknown_tool:
  "toolName req \<noteq> ''create_midi'' \<Longrightarrow>
     handler h d req =
       Some (ErrorResponse (McpError MethodNotFound (UnknownTool (toolName req))), d, [])"
  by (simp add: handler_def)

text \<open>
  The conversion of a beat reads \<open>composition.bpm\<close> itself, not the tempo that
  \<open>setTempo\<close> receives: when \<open>bpm\<close> is absent the wait of a note with a beat is
  \<open>TNaN\<close>, also when the legacy \<open>tempo\<close> is present.
\<close>

lemma beat_wait_without_bpm:
  assumes "beat note = Some b" and "bpm c = None"
  shows "waitOf (resolveNote c trackIndex note) = T TextNaN"
proof -
  have "fdiv x NaN = NaN" for x
    by (simp add: fdiv_def)
  with assms show ?thesis
    by (simp add: waitOf_resolveNote convertBeatToWait_def)
qed

text \<open>
  The ticks of a beat are computed in binary64 arithmetic, and the rounding of the
  division can decide the result. For the beat \<open>3.00390625 - 2\<^sup>-\<^sup>5\<^sup>1\<close> and the tempo
  \<open>1 - 2\<^sup>-\<^sup>5\<^sup>3\<close> (both binary64 values) the subtraction and the multiplication are exact,
  the quotient rounds up to \<open>256.5\<close>, and the wait is 257 ticks, where the formula in
  exact arithmetic gives 256.
\<close>

lemmas eval_round_double = round_double_def exponent_def pow2_def round_half_even_def Let_def
  floor_rat_numeral bitlen_numeral_eq bitlen_1 signed_inf_def signed_zero_def

lemma beat_ticks_binary64_example:
  "convertBeatToWait (Fin (6764195534077951 / 2251799813685248))
     (Fin (9007199254740991 / 9007199254740992)) = T (Decimal 257)"
proof -
  have s: "fsub (Fin (6764195534077951 / 2251799813685248)) (Fin 1)
      = Fin (4512395720392703 / 2251799813685248)"
    by (simp add: fsub_def fadd_def eval_round_double)
  have m: "fmul (Fin (4512395720392703 / 2251799813685248)) PPQ
      = Fin (4512395720392703 / 17592186044416)"
    by (simp add: fmul_def PPQ_def eval_round_double)
  have d: "fdiv (Fin (4512395720392703 / 17592186044416))
      (Fin (9007199254740991 / 9007199254740992)) = Fin (513 / 2)"
    by (simp add: fdiv_def eval_round_double)
  have r: "Math_round (Fin (513 / 2)) = Fin 257"
    by (simp add: Let_def floor_rat_numeral)
  show ?thesis
    by (simp add: convertBeatToWait_def s m d r del: Math_round.simps(1))
qed

lemma beat_ticks_exact_example:
  "\<lfloor>(6764195534077951 / 2251799813685248 - 1) * 128 / (9007199254740991 / 9007199254740992)
      + 1 / 2 :: rat\<rfloor> = 256"
  by (simp add: floor_rat_numeral)

section \<open>The tempo of the beat conversion\<close>

text \<open>
  C3. The ticks of a beat are meant to be \<open>round(((beat - 1) * 128) / tempo)\<close>: 0 for
  beat 1 at any tempo, 1 for beat 2 at tempo 120. The tempo of the piece is
  \<open>composition.bpm || composition.tempo || 120\<close>, which is what \<open>setTempo\<close> receives,
  but the conversion of a beat is given \<open>composition.bpm\<close> itself. For the composition of
  the README with its tempo 120 supplied by the legacy \<open>tempo\<close> field instead of \<open>bpm\<close>
  the track is set to tempo 120, and the notes at beat 1 and at beat 2 both get the wait
  \<open>TNaN\<close>, not 0 and 1 ticks.
\<close>

theorem C3_beat_wait_ignores_legacy_tempo:
  "filter isSetTempo (hd (buildTracks (normalizeComposition
      (readmeComposition\<lparr>bpm := None, tempo := Some (Fin 120)\<rparr>)))) = [SetTempo (Fin 120)]
   \<and> waitOf (resolveNote (readmeComposition\<lparr>bpm := None, tempo := Some (Fin 120)\<rparr>) 0
        (readmeNote\<lparr>beat := Some (Fin 1)\<rparr>)) = T TextNaN
   \<and> waitOf (resolveNote (readmeComposition\<lparr>bpm := None, tempo := Some (Fin 120)\<rparr>) 0
        (readmeNote\<lparr>beat := Some (Fin 2)\<rparr>)) = T TextNaN
   \<and> waitOf (resolveNote (readmeComposition\<lparr>bpm := Some (Fin 120), tempo := None\<rparr>) 0
        (readmeNote\<lparr>beat := Some (Fin 1)\<rparr>)) = T (Decimal 0)
   \<and> waitOf (resolveNote (readmeComposition\<lparr>bpm := Some (Fin 120), tempo := None\<rparr>) 0
        (readmeNote\<lparr>beat := Some (Fin 2)\<rparr>)) = T (Decimal 1)"
proof -
  have tempo: "filter isSetTempo (hd (buildTracks (normalizeComposition
      (readmeComposition\<lparr>bpm := None, tempo := Some (Fin 120)\<rparr>)))) = [SetTempo (Fin 120)]"
    by (simp add: buildTracks_readme filter_isSetTempo_buildTrack bpm_normalizeComposition
        tempo_normalizeComposition or_number_def or_undefined_def)
  have nan: "waitOf (resolveNote (readmeComposition\<lparr>bpm := None, tempo := Some (Fin 120)\<rparr>) 0
      (readmeNote\<lparr>beat := Some b\<rparr>)) = T TextNaN" for b
    by (rule beat_wait_without_bpm) simp_all
  have ok1: "waitOf (resolveNote (readmeComposition\<lparr>bpm := Some (Fin 120), tempo := None\<rparr>) 0
      (readmeNote\<lparr>beat := Some (Fin 1)\<rparr>)) = T (Decimal 0)"
    by (simp add: waitOf_resolveNote convertBeatToWait_first_beat)
  have ok2: "waitOf (resolveNote (readmeComposition\<lparr>bpm := Some (Fin 120), tempo := None\<rparr>) 0
      (readmeNote\<lparr>beat := Some (Fin 2)\<rparr>)) = T (Decimal 1)"
    by (simp add: waitOf_resolveNote convertBeatToWait_2_120)
  from tempo nan ok1 ok2 show ?thesis
    by blast
qed

section \<open>The source of the composition\<close>

text \<open>What \<open>createMidiFile\<close> returns: an \<open>InternalError\<close>, or the path of a file that
  holds the tracks built from the composition it was given.\<close>

lemma createMidiFile_outcome:
  assumes "createMidiFile h d title' c outputPath = Some (r, d', sent)"
  shows "(\<forall>e. r = Inl e \<longrightarrow> (\<exists>cause. e = McpError InternalError (MidiGenerationFailed cause)))
    \<and> (\<forall>p. r = Inr p \<longrightarrow> written d' p = Some (buildTracks c))
    \<and> processMidiComposition c = Some sent"
  using assms
  by (auto simp: createMidiFile_def writeMidiFile_def Let_def
      split: option.splits outcome.splits if_splits)

text \<open>It returns whenever the library's calls do.\<close>

lemma createMidiFile_returns:
  assumes "writerCalls h (buildTracks c) \<noteq> NeverReturns"
    and "buildFile h (buildTracks c) \<noteq> NeverReturns"
  shows "\<exists>r d' sent. createMidiFile h d title' c outputPath = Some (r, d', sent)"
proof -
  obtain sent where "processMidiComposition c = Some sent"
    using processMidiComposition_returns by blast
  with assms show ?thesis
    by (auto simp: createMidiFile_def writeMidiFile_def Let_def split: outcome.splits)
qed

lemma handler_of_loaded:
  assumes "toolName req = ''create_midi''"
    and "truthy_composition (composition (arguments req)) \<or> truthy_string (composition_file (arguments req))"
    and "loadComposition h (arguments req) = Inr c"
  shows "handler h d req =
    (case createMidiFile h d (title (arguments req)) (normalizeComposition c)
            (output_path (arguments req)) of
       None \<Rightarrow> None
     | Some (Inl e, d', sent) \<Rightarrow> Some (ErrorResponse e, d', Progress (Fin 0) Started # sent)
     | Some (Inr midiFilePath, d', sent) \<Rightarrow>
         Some (Generated (title (arguments req)) midiFilePath, d',
               Progress (Fin 0) Started # sent @ [Progress (Fin 100) Completed]))"
  using assms by (auto simp: handler_def Let_def)

lemma handler_of_failed_load:
  assumes "toolName req = ''create_midi''"
    and "truthy_composition (composition (arguments req)) \<or> truthy_string (composition_file (arguments req))"
    and "loadComposition h (arguments req) = Inl e"
  shows "handler h d req =
    Some (ErrorResponse (McpError InvalidParams (InvalidCompositionFormat e)), d,
          [Progress (Fin 0) Started])"
  using assms by (auto simp: handler_def Let_def)

text \<open>The handler returns on every request on which the library's calls return.\<close>

lemma handler_returns:
  assumes "\<forall>built. writerCalls h built \<noteq> NeverReturns"
    and "\<forall>built. buildFile h built \<noteq> NeverReturns"
  shows "\<exists>resp d' sent. handler h d req = Some (resp, d', sent)"
proof (cases "toolName req = ''create_midi''")
  case False
  then show ?thesis by (simp add: handler_def)
next
  case tool: True
  show ?thesis
  proof (cases "truthy_composition (composition (arguments req))
      \<or> truthy_string (composition_file (arguments req))")
    case False
    with tool show ?thesis by (simp add: handler_def Let_def)
  next
    case given: True
    show ?thesis
    proof (cases "loadComposition h (arguments req)")
      case (Inl e)
      with tool given show ?thesis by (simp add: handler_of_failed_load)
    next
      case (Inr c)
      obtain r d' sent where
        "createMidiFile h d (title (arguments req)) (normalizeComposition c)
           (output_path (arguments req)) = Some (r, d', sent)"
        using createMidiFile_returns assms by blast
      with tool given Inr show ?thesis
        by (cases r) (simp_all add: handler_of_loaded)
    qed
  qed
qed

lemma createMidiFile_readme:
  "createMidiFile exampleHost emptyDisk ''Test'' (normalizeComposition readmeComposition)
     ''/music/test.mid'' =
   Some (Inr ''/music/test.mid'',
     \<lparr>existing = {''/music/test.mid''},
      written = [''/music/test.mid'' \<mapsto>
        [[TrackName ''Piano'', SetTempo (Fin 120), SetTimeSignature (Fin 4) (Fin 4),
          ProgramChangeEvent (Fin 0) (Fin 0),
          NoteEvent [PitchNumber (Fin 60)] (DurationString ''4'') (Fin 100) (Fin 0)
            (T (Decimal 0))]]]\<rparr>,
     [Progress (Fin 100) (ProcessingTrack 1 1)])"
  by (simp add: createMidiFile_def processMidiComposition_readmeComposition
      buildTracks_readmeComposition writeMidiFile_def exampleHost_def emptyDisk_def Let_def)

text \<open>
  C7 (as stated, refuted). A request that supplies both sources is not always accepted,
  and the composition is not always loaded from the file. With a file that cannot be
  read the request is answered with the InvalidParams error, although the inline
  composition is the valid composition of the README. With a composition file that is
  the empty string the inline composition is the one used: the MIDI file is generated
  from it, where the file (which cannot be read) would give an error.
\<close>

theorem C7_both_supplied_counterexample:
  "handler exampleHost emptyDisk
     (exampleRequest\<lparr>arguments := exampleArgs
        \<lparr>composition := Some (CompositionObject readmeComposition),
         composition_file := Some ''/music/missing.json''\<rparr>\<rparr>)
   = Some (ErrorResponse (McpError InvalidParams (InvalidCompositionFormat
             (McpError InvalidParams (JsonFileLoadFailed SystemError)))),
           emptyDisk, [Progress (Fin 0) Started])
   \<and> readFileSync exampleHost '''' = None
   \<and> handler exampleHost emptyDisk
     (exampleRequest\<lparr>arguments := exampleArgs
        \<lparr>composition := Some (CompositionObject readmeComposition),
         composition_file := Some ''''\<rparr>\<rparr>)
   = Some (Generated ''Test'' ''/music/test.mid'',
       \<lparr>existing = {''/music/test.mid''},
        written = [''/music/test.mid'' \<mapsto>
          [[TrackName ''Piano'', SetTempo (Fin 120), SetTimeSignature (Fin 4) (Fin 4),
            ProgramChangeEvent (Fin 0) (Fin 0),
            NoteEvent [PitchNumber (Fin 60)] (DurationString ''4'') (Fin 100) (Fin 0)
              (T (Decimal 0))]]]\<rparr>,
       [Progress (Fin 0) Started, Progress (Fin 100) (ProcessingTrack 1 1),
        Progress (Fin 100) Completed])"
proof (intro conjI)
  show "handler exampleHost emptyDisk
     (exampleRequest\<lparr>arguments := exampleArgs
        \<lparr>composition := Some (CompositionObject readmeComposition),
         composition_file := Some ''/music/missing.json''\<rparr>\<rparr>)
   = Some (ErrorResponse (McpError InvalidParams (InvalidCompositionFormat
             (McpError InvalidParams (JsonFileLoadFailed SystemError)))),
           emptyDisk, [Progress (Fin 0) Started])"
    by (simp add: handler_def exampleRequest_def exampleArgs_def loadComposition_def Let_def
        exampleHost_def)
next
  show "readFileSync exampleHost '''' = None"
    by (simp add: exampleHost_def)
next
  have "loadComposition exampleHost (exampleArgs
      \<lparr>composition := Some (CompositionObject readmeComposition), composition_file := Some ''''\<rparr>)
      = Inr readmeComposition"
    by (simp add: loadComposition_def)
  then show "handler exampleHost emptyDisk
     (exampleRequest\<lparr>arguments := exampleArgs
        \<lparr>composition := Some (CompositionObject readmeComposition),
         composition_file := Some ''''\<rparr>\<rparr>)
   = Some (Generated ''Test'' ''/music/test.mid'',
       \<lparr>existing = {''/music/test.mid''},
        written = [''/music/test.mid'' \<mapsto>
          [[TrackName ''Piano'', SetTempo (Fin 120), SetTimeSignature (Fin 4) (Fin 4),
            ProgramChangeEvent (Fin 0) (Fin 0),
            NoteEvent [PitchNumber (Fin 60)] (DurationString ''4'') (Fin 100) (Fin 0)
              (T (Decimal 0))]]]\<rparr>,
       [Progress (Fin 0) Started, Progress (Fin 100) (ProcessingTrack 1 1),
        Progress (Fin 100) Completed])"
    by (simp add: handler_of_loaded exampleRequest_def exampleArgs_def createMidiFile_readme)
qed

text \<open>
  C7 (amended). A request for \<open>create_midi\<close> that supplies an inline composition together
  with a composition file that is a non-empty string is not rejected for supplying both,
  and its composition is loaded from the file alone: the file is read and parsed, and
  the inline composition is ignored, so that the request has the outcome of the same
  request without the inline composition. When the file cannot be read, cannot be parsed
  or does not hold a composition, the request is answered with the InvalidParams error
  and the disk is left as it was. When the file holds a composition, that composition is
  passed through the handler's passes and given to \<open>createMidiFile\<close> with the title and
  the output path of the request; the response is then never an InvalidParams error,
  and a success response names a file that holds the tracks built from the composition
  of the file.
\<close>

theorem C7_file_takes_precedence:
  assumes "toolName req = ''create_midi''"
    and "composition_file (arguments req) = Some file" and "file \<noteq> []"
    and "composition (arguments req) = Some inline"
  shows "loadComposition h (arguments req) =
      (case readFileSync h file of
         None \<Rightarrow> Inl (McpError InvalidParams (JsonFileLoadFailed SystemError))
       | Some fileContent \<Rightarrow>
           (case JSON_parse h fileContent of
              ParseThrows \<Rightarrow> Inl (McpError InvalidParams (JsonFileLoadFailed SyntaxError))
            | OtherValue \<Rightarrow> Inl TypeError
            | CompositionValue c \<Rightarrow> Inr c))
    \<and> handler h d req = handler h d (req\<lparr>arguments := (arguments req)\<lparr>composition := None\<rparr>\<rparr>)
    \<and> handler h d req \<noteq>
          Some (ErrorResponse (McpError InvalidParams CompositionRequired), d,
                [Progress (Fin 0) Started])
    \<and> (readFileSync h file = None \<longrightarrow>
          handler h d req =
            Some (ErrorResponse (McpError InvalidParams (InvalidCompositionFormat
                    (McpError InvalidParams (JsonFileLoadFailed SystemError)))),
                  d, [Progress (Fin 0) Started]))
    \<and> (readFileSync h file = Some fileContent \<and> JSON_parse h fileContent = ParseThrows \<longrightarrow>
          handler h d req =
            Some (ErrorResponse (McpError InvalidParams (InvalidCompositionFormat
                    (McpError InvalidParams (JsonFileLoadFailed SyntaxError)))),
                  d, [Progress (Fin 0) Started]))
    \<and> (readFileSync h file = Some fileContent \<and> JSON_parse h fileContent = OtherValue \<longrightarrow>
          handler h d req =
            Some (ErrorResponse (McpError InvalidParams (InvalidCompositionFormat TypeError)),
                  d, [Progress (Fin 0) Started]))
    \<and> (readFileSync h file = Some fileContent \<and> JSON_parse h fileContent = CompositionValue c \<longrightarrow>
          handler h d req =
            (case createMidiFile h d (title (arguments req)) (normalizeComposition c)
                    (output_path (arguments req)) of
               None \<Rightarrow> None
             | Some (Inl e, d', sent) \<Rightarrow>
                 Some (ErrorResponse e, d', Progress (Fin 0) Started # sent)
             | Some (Inr midiFilePath, d', sent) \<Rightarrow>
                 Some (Generated (title (arguments req)) midiFilePath, d',
                       Progress (Fin 0) Started # sent @ [Progress (Fin 100) Completed]))
          \<and> (\<forall>resp d' sent. handler h d req = Some (resp, d', sent) \<longrightarrow>
                (\<forall>m. resp \<noteq> ErrorResponse (McpError InvalidParams m))
                \<and> (\<forall>t p. resp = Generated t p \<longrightarrow>
                      t = title (arguments req)
                      \<and> written d' p = Some (buildTracks (normalizeComposition c)))))"
proof -
  have given: "truthy_composition (composition (arguments req))
      \<or> truthy_string (composition_file (arguments req))"
    using assms by simp
  have load: "loadComposition h (arguments req) =
      (case readFileSync h file of
         None \<Rightarrow> Inl (McpError InvalidParams (JsonFileLoadFailed SystemError))
       | Some fileContent \<Rightarrow>
           (case JSON_parse h fileContent of
              ParseThrows \<Rightarrow> Inl (McpError InvalidParams (JsonFileLoadFailed SyntaxError))
            | OtherValue \<Rightarrow> Inl TypeError
            | CompositionValue c \<Rightarrow> Inr c))"
    using assms by (simp add: loadComposition_def)
  have same: "handler h d req
      = handler h d (req\<lparr>arguments := (arguments req)\<lparr>composition := None\<rparr>\<rparr>)"
  proof -
    have "loadComposition h ((arguments req)\<lparr>composition := None\<rparr>)
        = loadComposition h (arguments req)"
      using assms by (simp add: loadComposition_def)
    with assms show ?thesis
      by (simp add: handler_def Let_def split: sum.splits option.splits prod.splits)
  qed
  have unread: "handler h d req =
      Some (ErrorResponse (McpError InvalidParams (InvalidCompositionFormat
              (McpError InvalidParams (JsonFileLoadFailed SystemError)))),
            d, [Progress (Fin 0) Started])"
    if "readFileSync h file = None"
    using that load by (simp add: handler_of_failed_load [OF assms(1) given])
  have unparsed: "handler h d req =
      Some (ErrorResponse (McpError InvalidParams (InvalidCompositionFormat
              (McpError InvalidParams (JsonFileLoadFailed SyntaxError)))),
            d, [Progress (Fin 0) Started])"
    if "readFileSync h file = Some fileContent \<and> JSON_parse h fileContent = ParseThrows"
    using that load by (simp add: handler_of_failed_load [OF assms(1) given])
  have other: "handler h d req =
      Some (ErrorResponse (McpError InvalidParams (InvalidCompositionFormat TypeError)),
            d, [Progress (Fin 0) Started])"
    if "readFileSync h file = Some fileContent \<and> JSON_parse h fileContent = OtherValue"
    using that load by (simp add: handler_of_failed_load [OF assms(1) given])
  have loaded: "handler h d req =
      (case createMidiFile h d (title (arguments req)) (normalizeComposition c)
              (output_path (arguments req)) of
         None \<Rightarrow> None
       | Some (Inl e, d', sent) \<Rightarrow>
           Some (ErrorResponse e, d', Progress (Fin 0) Started # sent)
       | Some (Inr midiFilePath, d', sent) \<Rightarrow>
           Some (Generated (title (arguments req)) midiFilePath, d',
                 Progress (Fin 0) Started # sent @ [Progress (Fin 100) Completed]))"
    if "readFileSync h file = Some fileContent \<and> JSON_parse h fileContent = CompositionValue c"
  proof -
    from that load have "loadComposition h (arguments req) = Inr c"
      by simp
    then show ?thesis
      by (rule handler_of_loaded [OF assms(1) given])
  qed
  have accepted: "(\<forall>m. resp \<noteq> ErrorResponse (McpError InvalidParams m))
      \<and> (\<forall>t p. resp = Generated t p \<longrightarrow>
            t = title (arguments req)
            \<and> written d' p = Some (buildTracks (normalizeComposition c)))"
    if f: "readFileSync h file = Some fileContent \<and> JSON_parse h fileContent = CompositionValue c"
      and r: "handler h d req = Some (resp, d', sent)"
    for resp d' sent
  proof -
    from r loaded [OF f] obtain r0 d0 sent0 where
      c: "createMidiFile h d (title (arguments req)) (normalizeComposition c)
            (output_path (arguments req)) = Some (r0, d0, sent0)"
      by (auto split: option.splits)
    note o = createMidiFile_outcome [OF c]
    show ?thesis
    proof (cases r0)
      case (Inl e)
      with o obtain cause where "e = McpError InternalError (MidiGenerationFailed cause)"
        by blast
      with r loaded [OF f] c Inl show ?thesis
        by auto
    next
      case (Inr p)
      with o have "written d0 p = Some (buildTracks (normalizeComposition c))"
        by blast
      with r loaded [OF f] c Inr show ?thesis
        by auto
    qed
  qed
  have notboth: "handler h d req \<noteq>
      Some (ErrorResponse (McpError InvalidParams CompositionRequired), d,
            [Progress (Fin 0) Started])"
  proof (cases "loadComposition h (arguments req)")
    case (Inl e)
    then show ?thesis
      by (simp add: handler_of_failed_load [OF assms(1) given])
  next
    case (Inr c0)
    show ?thesis
    proof
      assume a: "handler h d req =
        Some (ErrorResponse (McpError InvalidParams CompositionRequired), d,
              [Progress (Fin 0) Started])"
      with handler_of_loaded [OF assms(1) given Inr] obtain r0 d0 sent0 where
        c: "createMidiFile h d (title (arguments req)) (normalizeComposition c0)
              (output_path (arguments req)) = Some (r0, d0, sent0)"
        by (auto split: option.splits)
      note o = createMidiFile_outcome [OF c]
      show False
      proof (cases r0)
        case (Inl e)
        with o obtain cause where "e = McpError InternalError (MidiGenerationFailed cause)"
          by blast
        with a handler_of_loaded [OF assms(1) given Inr] c Inl show False
          by simp
      next
        case (Inr p)
        with a handler_of_loaded [OF assms(1) given \<open>loadComposition h (arguments req) = Inr c0\<close>] c
        show False
          by simp
      qed
    qed
  qed
  from load same notboth unread unparsed other loaded accepted show ?thesis
    by blast
qed

theorem C7_file_takes_precedence_witness:
  "loadComposition exampleHost
     (exampleArgs\<lparr>composition := Some (CompositionObject longComposition),
                  composition_file := Some ''/music/song.json''\<rparr>) = Inr readmeComposition
   \<and> handler exampleHost emptyDisk
     (exampleRequest\<lparr>arguments := exampleArgs
        \<lparr>composition := Some (CompositionObject longComposition),
         composition_file := Some ''/music/song.json''\<rparr>\<rparr>)
   = Some (Generated ''Test'' ''/music/test.mid'',
       \<lparr>existing = {''/music/test.mid''},
        written = [''/music/test.mid'' \<mapsto>
          [[TrackName ''Piano'', SetTempo (Fin 120), SetTimeSignature (Fin 4) (Fin 4),
            ProgramChangeEvent (Fin 0) (Fin 0),
            NoteEvent [PitchNumber (Fin 60)] (DurationString ''4'') (Fin 100) (Fin 0)
              (T (Decimal 0))]]]\<rparr>,
       [Progress (Fin 0) Started, Progress (Fin 100) (ProcessingTrack 1 1),
        Progress (Fin 100) Completed])"
proof -
  let ?req = "exampleRequest\<lparr>arguments := exampleArgs
        \<lparr>composition := Some (CompositionObject longComposition),
         composition_file := Some ''/music/song.json''\<rparr>\<rparr>"
  have 1: "toolName ?req = ''create_midi''"
    by (simp add: exampleRequest_def)
  have 2: "composition_file (arguments ?req) = Some ''/music/song.json''"
    by simp
  have 3: "''/music/song.json'' \<noteq> []"
    by simp
  have 4: "composition (arguments ?req) = Some (CompositionObject longComposition)"
    by simp
  have 5: "readFileSync exampleHost ''/music/song.json'' = Some ''song''
      \<and> JSON_parse exampleHost ''song'' = CompositionValue readmeComposition"
    by (simp add: exampleHost_def)
  note w = C7_file_takes_precedence [OF 1 2 3 4, of exampleHost emptyDisk "''song''" readmeComposition]
  from w have "loadComposition exampleHost (arguments ?req) =
      (case readFileSync exampleHost ''/music/song.json'' of
         None \<Rightarrow> Inl (McpError InvalidParams (JsonFileLoadFailed SystemError))
       | Some fileContent \<Rightarrow>
           (case JSON_parse exampleHost fileContent of
              ParseThrows \<Rightarrow> Inl (McpError InvalidParams (JsonFileLoadFailed SyntaxError))
            | OtherValue \<Rightarrow> Inl TypeError
            | CompositionValue c \<Rightarrow> Inr c))"
    by (rule conjunct1)
  with 5 have a: "loadComposition exampleHost (arguments ?req) = Inr readmeComposition"
    by simp
  from w 5 have "handler exampleHost emptyDisk ?req =
      (case createMidiFile exampleHost emptyDisk (title (arguments ?req))
              (normalizeComposition readmeComposition) (output_path (arguments ?req)) of
         None \<Rightarrow> None
       | Some (Inl e, d', sent) \<Rightarrow>
           Some (ErrorResponse e, d', Progress (Fin 0) Started # sent)
       | Some (Inr midiFilePath, d', sent) \<Rightarrow>
           Some (Generated (title (arguments ?req)) midiFilePath, d',
                 Progress (Fin 0) Started # sent @ [Progress (Fin 100) Completed]))"
    by blast
  then have b: "handler exampleHost emptyDisk ?req
      = Some (Generated ''Test'' ''/music/test.mid'',
       \<lparr>existing = {''/music/test.mid''},
        written = [''/music/test.mid'' \<mapsto>
          [[TrackName ''Piano'', SetTempo (Fin 120), SetTimeSignature (Fin 4) (Fin 4),
            ProgramChangeEvent (Fin 0) (Fin 0),
            NoteEvent [PitchNumber (Fin 60)] (DurationString ''4'') (Fin 100) (Fin 0)
              (T (Decimal 0))]]]\<rparr>,
       [Progress (Fin 0) Started, Progress (Fin 100) (ProcessingTrack 1 1),
        Progress (Fin 100) Completed])"
    by (simp add: exampleArgs_def createMidiFile_readme)
  from a b show ?thesis
    by simp
qed

end
